theory Spec2Isabelle
  imports Main "HOL-Library.Word"
begin

unbundle bit_operations_syntax

section \<open>Data model of the filer (weed/filer2/filer.go)\<close>

text \<open>
  The Go file under verification is the orchestration layer of the filer. The types it
  manipulates (\<open>Entry\<close>, \<open>Attr\<close>, \<open>FullPath\<close>, \<open>filer_pb.FileChunk\<close>) and the
  collaborators it calls (\<open>FilerStore\<close>, \<open>wdclient.MasterClient\<close>,
  \<open>operation.DeleteFromVolumeServer\<close>, \<open>ccache.Cache\<close>) are declared elsewhere. The
  records below carry the fields that filer.go reads or writes. Go's slices of pointers
  (\<open>[]*FileChunk\<close>, \<open>[]*Entry\<close>) are lists of values: a nil element is not modelled.
\<close>

type_synonym FullPath = string

text \<open>A Go \<open>error\<close> value is represented by its message; \<open>None\<close> is \<open>nil\<close>.\<close>

datatype error = Error string

text \<open>\<open>time.Time\<close> values are opaque instants.\<close>

type_synonym time = int

text \<open>Of a \<open>filer_pb.FileChunk\<close>, filer.go reads the identifier only; offset and size
  stand for the chunk metadata that the spec mentions.\<close>

record FileChunk =
  FileId :: string
  Offset :: int
  Size :: int

text \<open>The attributes that \<open>CreateEntry\<close> sets on a directory it creates; the entry
  embeds them and its path, and carries the chunk list.\<close>

record Attr =
  Mtime :: time
  Crtime :: time
  Mode :: "32 word"
  Uid :: "32 word"
  Gid :: "32 word"

record Entry =
  FullPath :: FullPath
  Attr :: Attr
  Chunks :: "FileChunk list"

text \<open>\<open>os.ModeDir\<close> is the top bit of the 32-bit \<open>os.FileMode\<close>.\<close>

definition ModeDir :: "32 word" where
  "ModeDir = push_bit 31 1"

text \<open>
  Modelled from the spec: \<open>Entry.IsDirectory\<close> is not part of filer.go; the spec says
  "An entry is a directory iff its mode's directory bit is set".
\<close>

definition IsDirectory :: "Entry \<Rightarrow> bool" where
  "IsDirectory entry \<longleftrightarrow> Mode (Attr entry) AND ModeDir \<noteq> 0"

text \<open>
  A Go call either returns or panics (here: a nil pointer dereference). The effects
  performed before a panic stay in the state that is returned next to the outcome.
\<close>

datatype 'a go = Panic | Return 'a

text \<open>
  The \<open>FilerStore\<close> interface: the pluggable Entry Store. An implementation is a
  record of operations over its own state \<open>'s\<close>; the two queries do not change it.
  Go's multiple return values are pairs, with a possibly nil entry pointer as an option.
\<close>

record 's FilerStore =
  store_InsertEntry :: "Entry \<Rightarrow> 's \<Rightarrow> error option \<times> 's"
  store_UpdateEntry :: "Entry \<Rightarrow> 's \<Rightarrow> error option \<times> 's"
  store_FindEntry :: "FullPath \<Rightarrow> 's \<Rightarrow> Entry option \<times> error option"
  store_DeleteEntry :: "FullPath \<Rightarrow> 's \<Rightarrow> error option \<times> 's"
  store_ListDirectoryEntries ::
    "FullPath \<Rightarrow> string \<Rightarrow> bool \<Rightarrow> int \<Rightarrow> 's \<Rightarrow> Entry list \<times> error option"

text \<open>
  Every state-changing request that the filer sends to a collaborator is recorded, in
  order, in \<open>calls\<close>: the three mutating store operations, the chunk location lookup
  and the chunk delete on a volume server.
\<close>

datatype event =
    InsertEntry Entry
  | UpdateEntryCall Entry
  | DeleteEntry FullPath
  | LookupFileId string
  | DeleteFromVolumeServer string string

text \<open>An item of the directory cache: the cached entry and its time to live
  (a \<open>time.Duration\<close>, a signed 64-bit count of nanoseconds).\<close>

record cache_item =
  Value :: Entry
  TTL :: "64 word"

text \<open>
  The \<open>Filer\<close> struct. \<open>directoryCache = None\<close> is the nil cache of
  \<open>DisableDirectoryCache\<close>. \<open>MasterClient\<close> is the behaviour of
  \<open>MasterClient.LookupFileId\<close>: the location and the error it returns for a chunk
  identifier. Expiry and eviction of cache items are not modelled.
\<close>

record 's Filer =
  store :: 's
  directoryCache :: "(string \<rightharpoonup> cache_item) option"
  MasterClient :: "string \<Rightarrow> string \<times> error option"
  calls :: "event list"

section \<open>Directory cache\<close>

definition cacheDelDirectory :: "string \<Rightarrow> 's Filer \<Rightarrow> 's Filer" where
  "cacheDelDirectory dirpath f =
     (case directoryCache f of
        None \<Rightarrow> f
      | Some c \<Rightarrow> f\<lparr>directoryCache := Some (c(dirpath := None))\<rparr>)"

definition cacheGetDirectory :: "string \<Rightarrow> 's Filer \<Rightarrow> Entry option" where
  "cacheGetDirectory dirpath f =
     (case directoryCache f of
        None \<Rightarrow> None
      | Some c \<Rightarrow> (case c dirpath of None \<Rightarrow> None | Some item \<Rightarrow> Some (Value item)))"

text \<open>
  The number of minutes computed by \<open>cacheSetDirectory\<close>; \<open>level\<close> is a Go \<open>int\<close>
  (64 bits), compared as a signed number.
\<close>

definition cacheMinutes :: "64 word \<Rightarrow> 64 word" where
  "cacheMinutes level = (if level <s 10 then 60 - level * 6 else 60)"

text \<open>\<open>time.Minute\<close> in nanoseconds.\<close>

definition Minute :: "64 word" where
  "Minute = 60000000000"

definition cacheSetDirectory :: "string \<Rightarrow> Entry \<Rightarrow> 64 word \<Rightarrow> 's Filer \<Rightarrow> 's Filer" where
  "cacheSetDirectory dirpath dirEntry level f =
     (case directoryCache f of
        None \<Rightarrow> f
      | Some c \<Rightarrow>
          f\<lparr>directoryCache :=
              Some (c(dirpath \<mapsto> \<lparr>Value = dirEntry, TTL = cacheMinutes level * Minute\<rparr>))\<rparr>)"

section \<open>Chunk reclamation\<close>

text \<open>
  \<open>DeleteFileByFileId\<close>: the lookup error is only logged, and the delete request is
  sent with whatever location the lookup returned.
\<close>

definition DeleteFileByFileId :: "string \<Rightarrow> 's Filer \<Rightarrow> 's Filer" where
  "DeleteFileByFileId fileId f =
     (let (fileUrlOnVolume, err) = MasterClient f fileId
      in f\<lparr>calls := calls f @ [LookupFileId fileId, DeleteFromVolumeServer fileUrlOnVolume '''']\<rparr>)"

primrec deleteChunks :: "FileChunk list \<Rightarrow> 's Filer \<Rightarrow> 's Filer" where
  "deleteChunks [] f = f"
| "deleteChunks (chunk # chunks) f = deleteChunks chunks (DeleteFileByFileId (FileId chunk) f)"

text \<open>The inner loop of \<open>deleteChunksIfNotNew\<close>: is \<open>oldChunk\<close>'s identifier among the
  new chunks?\<close>

primrec foundIn :: "FileChunk \<Rightarrow> FileChunk list \<Rightarrow> bool" where
  "foundIn oldChunk [] = False"
| "foundIn oldChunk (newChunk # newChunks) =
     (if FileId oldChunk = FileId newChunk then True else foundIn oldChunk newChunks)"

text \<open>
  The outer loop. Each iteration reads \<open>newEntry.Chunks\<close>, which dereferences
  \<open>newEntry\<close>: with a nil \<open>newEntry\<close> the first iteration panics.
\<close>

primrec collectToDelete ::
  "FileChunk list \<Rightarrow> Entry option \<Rightarrow> FileChunk list \<Rightarrow> FileChunk list go" where
  "collectToDelete [] newEntry toDelete = Return toDelete"
| "collectToDelete (oldChunk # oldChunks) newEntry toDelete =
     (case newEntry of
        None \<Rightarrow> Panic
      | Some new \<Rightarrow>
          collectToDelete oldChunks newEntry
            (if foundIn oldChunk (Chunks new) then toDelete else toDelete @ [oldChunk]))"

definition deleteChunksIfNotNew ::
  "Entry option \<Rightarrow> Entry option \<Rightarrow> 's Filer \<Rightarrow> unit go \<times> 's Filer" where
  "deleteChunksIfNotNew oldEntry newEntry f =
     (case oldEntry of
        None \<Rightarrow> (Return (), f)
      | Some old \<Rightarrow>
          (let f1 = (if newEntry = None then deleteChunks (Chunks old) f else f)
           in case collectToDelete (Chunks old) newEntry [] of
                Panic \<Rightarrow> (Panic, f1)
              | Return toDelete \<Rightarrow> (Return (), deleteChunks toDelete f1)))"

text \<open>The chunk identifiers that a sequence of calls asked the volume servers to
  reclaim, in order: one per \<open>DeleteFileByFileId\<close>.\<close>

fun reclaimed :: "event list \<Rightarrow> string list" where
  "reclaimed [] = []"
| "reclaimed (LookupFileId fileId # DeleteFromVolumeServer url jwt # es) = fileId # reclaimed es"
| "reclaimed (e # es) = reclaimed es"

text \<open>The requests made for reclaiming chunks.\<close>

fun isChunkRequest :: "event \<Rightarrow> bool" where
  "isChunkRequest (LookupFileId fileId) = True"
| "isChunkRequest (DeleteFromVolumeServer url jwt) = True"
| "isChunkRequest e = False"

section \<open>Go library functions used by the filer\<close>

text \<open>\<open>strings.Split(s, "/")\<close>: the pieces of \<open>s\<close> between slashes, always at least one.\<close>

primrec strings_Split :: "string \<Rightarrow> string list" where
  "strings_Split [] = [[]]"
| "strings_Split (c # cs) =
     (if c = CHR ''/'' then [] # strings_Split cs
      else (case strings_Split cs of [] \<Rightarrow> [[c]] | w # ws \<Rightarrow> (c # w) # ws))"

text \<open>\<open>strings.Join(elems, "/")\<close>.\<close>

fun strings_Join :: "string list \<Rightarrow> string" where
  "strings_Join [] = []"
| "strings_Join [e] = e"
| "strings_Join (e # es) = e @ ''/'' @ strings_Join es"

definition strings_HasSuffix :: "string \<Rightarrow> string \<Rightarrow> bool" where
  "strings_HasSuffix s suffix \<longleftrightarrow>
     length suffix \<le> length s \<and> drop (length s - length suffix) s = suffix"

text \<open>
  \<open>filepath.Clean\<close> on a slash-separated path: empty and \<open>.\<close> elements are dropped, a
  \<open>..\<close> removes the element before it (at the start it is kept in a relative path and
  dropped in a rooted one), and the empty result is \<open>.\<close>. The elements kept so far are
  held in reverse order.
\<close>

primrec cleanElems :: "bool \<Rightarrow> string list \<Rightarrow> string list \<Rightarrow> string list" where
  "cleanElems rooted [] out = rev out"
| "cleanElems rooted (e # es) out =
     (if e = [] \<or> e = ''.'' then cleanElems rooted es out
      else if e = ''..'' then
        (case out of
           [] \<Rightarrow> cleanElems rooted es (if rooted then [] else [''..''])
         | e1 # rest \<Rightarrow>
             if e1 \<noteq> ''..'' then cleanElems rooted es rest
             else cleanElems rooted es (if rooted then out else ''..'' # out))
      else cleanElems rooted es (e # out))"

definition filepath_Clean :: "string \<Rightarrow> string" where
  "filepath_Clean path =
     (if path = [] then ''.''
      else
        (let rooted = (hd path = CHR ''/'');
             s = (if rooted then ''/'' else []) @
                   strings_Join (cleanElems rooted (strings_Split path) [])
         in if s = [] then ''.'' else s))"

text \<open>\<open>filepath.Join\<close>: leading empty elements are skipped, the rest is joined with
  slashes and cleaned; with no non-empty element the result is empty.\<close>

definition filepath_Join :: "string list \<Rightarrow> string" where
  "filepath_Join elem =
     (case dropWhile (\<lambda>e. e = []) elem of
        [] \<Rightarrow> []
      | e # es \<Rightarrow> filepath_Clean (strings_Join (e # es)))"

section \<open>Requests to the Entry Store\<close>

definition storeInsertEntry :: "'s FilerStore \<Rightarrow> Entry \<Rightarrow> 's Filer \<Rightarrow> error option \<times> 's Filer" where
  "storeInsertEntry ops entry f =
     (let (err, s) = store_InsertEntry ops entry (store f)
      in (err, f\<lparr>store := s, calls := calls f @ [InsertEntry entry]\<rparr>))"

definition storeDeleteEntry :: "'s FilerStore \<Rightarrow> FullPath \<Rightarrow> 's Filer \<Rightarrow> error option \<times> 's Filer" where
  "storeDeleteEntry ops p f =
     (let (err, s) = store_DeleteEntry ops p (store f)
      in (err, f\<lparr>store := s, calls := calls f @ [DeleteEntry p]\<rparr>))"

definition UpdateEntry :: "'s FilerStore \<Rightarrow> Entry \<Rightarrow> 's Filer \<Rightarrow> error option \<times> 's Filer" where
  "UpdateEntry ops entry f =
     (let (err, s) = store_UpdateEntry ops entry (store f)
      in (err, f\<lparr>store := s, calls := calls f @ [UpdateEntryCall entry]\<rparr>))"

definition FindEntry :: "'s FilerStore \<Rightarrow> FullPath \<Rightarrow> 's Filer \<Rightarrow> Entry option \<times> error option" where
  "FindEntry ops p f = store_FindEntry ops p (store f)"

definition ListDirectoryEntries ::
  "'s FilerStore \<Rightarrow> FullPath \<Rightarrow> string \<Rightarrow> bool \<Rightarrow> int \<Rightarrow> 's Filer \<Rightarrow> Entry list \<times> error option" where
  "ListDirectoryEntries ops p startFileName inclusive limit f =
     (let p1 = (if strings_HasSuffix p ''/'' \<and> length p > 1 then take (length p - 1) p else p)
      in store_ListDirectoryEntries ops p1 startFileName inclusive limit (store f))"

section \<open>CreateEntry\<close>

text \<open>The default permission of a created directory, \<open>0770\<close> in octal.\<close>

definition perm0770 :: "32 word" where
  "perm0770 = 7 * 64 + 7 * 8"

text \<open>The directory entry built for a missing ancestor (the \<open>Entry\<close> literal in the
  loop of \<open>CreateEntry\<close>); \<open>now\<close> is the reading of \<open>time.Now()\<close>.\<close>

definition newDirEntry :: "string \<Rightarrow> time \<Rightarrow> Entry \<Rightarrow> Entry" where
  "newDirEntry dirPath now entry =
     \<lparr>FullPath = dirPath,
      Attr = \<lparr>Mtime = now, Crtime = now, Mode = ModeDir OR perm0770,
              Uid = Uid (Attr entry), Gid = Gid (Attr entry)\<rparr>,
      Chunks = []\<rparr>"

text \<open>The lookup of an ancestor: the cache first, the store on a miss (its error is
  dropped).\<close>

definition lookupDirectory :: "'s FilerStore \<Rightarrow> string \<Rightarrow> 's Filer \<Rightarrow> Entry option" where
  "lookupDirectory ops dirPath f =
     (case cacheGetDirectory dirPath f of
        None \<Rightarrow> fst (FindEntry ops dirPath f)
      | Some dirEntry \<Rightarrow> Some dirEntry)"

text \<open>
  One ancestor of the path walk, up to the point where the directory entry is known:
  look it up; if there is none, build a directory entry and insert it (a failing insert
  ends \<open>CreateEntry\<close> with a "mkdir" error); if there is one and it is not a directory,
  end with "is a file". \<open>now\<close> is what \<open>time.Now()\<close> reads here.
\<close>

definition resolveAncestor ::
  "'s FilerStore \<Rightarrow> time \<Rightarrow> Entry \<Rightarrow> string \<Rightarrow> 's Filer \<Rightarrow> (error + Entry) \<times> 's Filer" where
  "resolveAncestor ops now entry dirPath f =
     (case lookupDirectory ops dirPath f of
        None \<Rightarrow>
          (let dirEntry = newDirEntry dirPath now entry;
               (mkdirErr, f1) = storeInsertEntry ops dirEntry f
           in case mkdirErr of
                Some (Error msg) \<Rightarrow> (Inl (Error (''mkdir '' @ dirPath @ '': '' @ msg)), f1)
              | None \<Rightarrow> (Inr dirEntry, f1))
      | Some dirEntry \<Rightarrow>
          if \<not> IsDirectory dirEntry then (Inl (Error (dirPath @ '' is a file'')), f)
          else (Inr dirEntry, f))"

text \<open>
  The loop of \<open>CreateEntry\<close> over \<open>i = 1, ..., len(dirParts) - 1\<close>, as a recursion over
  the indices still to visit. It returns the error that ended it early, if any, and
  \<open>lastDirectoryEntry\<close>. \<open>now i\<close> is what \<open>time.Now()\<close> reads in iteration \<open>i\<close>.
\<close>

primrec ancestorLoop ::
  "'s FilerStore \<Rightarrow> (nat \<Rightarrow> time) \<Rightarrow> Entry \<Rightarrow> string list \<Rightarrow> nat list \<Rightarrow> Entry option \<Rightarrow>
   's Filer \<Rightarrow> (error option \<times> Entry option) \<times> 's Filer" where
  "ancestorLoop ops now entry dirParts [] lastDirectoryEntry f = ((None, lastDirectoryEntry), f)"
| "ancestorLoop ops now entry dirParts (i # rest) lastDirectoryEntry f =
     (let dirPath = ''/'' @ filepath_Join (take i dirParts)
      in case resolveAncestor ops (now i) entry dirPath f of
           (Inl err, f1) \<Rightarrow> ((Some err, lastDirectoryEntry), f1)
         | (Inr dirEntry, f1) \<Rightarrow>
             ancestorLoop ops now entry dirParts rest
               (if i = length dirParts - 1 then Some dirEntry else lastDirectoryEntry)
               (cacheSetDirectory dirPath dirEntry (of_nat i) f1))"

definition CreateEntry ::
  "'s FilerStore \<Rightarrow> (nat \<Rightarrow> time) \<Rightarrow> Entry \<Rightarrow> 's Filer \<Rightarrow> error option go \<times> 's Filer" where
  "CreateEntry ops now entry f =
     (let dirParts = strings_Split (FullPath entry);
          ((loopErr, lastDirectoryEntry), f1) =
             ancestorLoop ops now entry dirParts [1..<length dirParts] None f
      in case loopErr of
           Some e \<Rightarrow> (Return (Some e), f1)
         | None \<Rightarrow>
             (case lastDirectoryEntry of
                None \<Rightarrow>
                  (Return (Some (Error (''parent folder not found: '' @ FullPath entry))), f1)
              | Some parent \<Rightarrow>
                  (let oldEntry = fst (FindEntry ops (FullPath entry) f1);
                       (err, f2) = storeInsertEntry ops entry f1
                   in case err of
                        Some (Error msg) \<Rightarrow>
                          (Return (Some (Error (''insert entry '' @ FullPath entry @ '': '' @ msg))), f2)
                      | None \<Rightarrow>
                          (case deleteChunksIfNotNew oldEntry (Some entry) f2 of
                             (Panic, f3) \<Rightarrow> (Panic, f3)
                           | (Return u, f3) \<Rightarrow> (Return None, f3)))))"

section \<open>DeleteEntryMetaAndData\<close>

text \<open>The last two statements of \<open>DeleteEntryMetaAndData\<close>: reclaim the entry's chunks
  if asked to, then delete the entry from the store and return the store's error.\<close>

definition deleteEntryAndChunks ::
  "'s FilerStore \<Rightarrow> FullPath \<Rightarrow> Entry \<Rightarrow> bool \<Rightarrow> 's Filer \<Rightarrow> error option go \<times> 's Filer" where
  "deleteEntryAndChunks ops p entry shouldDeleteChunks f =
     (let f1 = (if shouldDeleteChunks then deleteChunks (Chunks entry) f else f);
          (err, f2) = storeDeleteEntry ops p f1
      in (Return err, f2))"

text \<open>
  \<open>DeleteEntryMetaAndData\<close> calls itself on what the store lists, and a store may list
  anything, so the recursion depth is bounded by a fuel argument: \<open>None\<close> means that the
  fuel ran out. \<open>deleteSubs\<close> is the loop over the listed children; the value returned
  by each recursive call is dropped there, as in the source, and only a panic ends it.
\<close>

fun DeleteEntryMetaAndData ::
  "nat \<Rightarrow> 's FilerStore \<Rightarrow> FullPath \<Rightarrow> bool \<Rightarrow> bool \<Rightarrow> 's Filer \<Rightarrow>
   (error option go \<times> 's Filer) option"
and deleteSubs ::
  "nat \<Rightarrow> 's FilerStore \<Rightarrow> Entry list \<Rightarrow> bool \<Rightarrow> bool \<Rightarrow> 's Filer \<Rightarrow>
   (unit go \<times> 's Filer) option" where
  "DeleteEntryMetaAndData 0 ops p isRecursive shouldDeleteChunks f = None"
| "DeleteEntryMetaAndData (Suc n) ops p isRecursive shouldDeleteChunks f =
     (case FindEntry ops p f of
        (entry, Some err) \<Rightarrow> Some (Return (Some err), f)
      | (None, None) \<Rightarrow> Some (Panic, f)
      | (Some entry, None) \<Rightarrow>
          if IsDirectory entry then
            (case ListDirectoryEntries ops p [] False 1 f of
               (entries, Some (Error msg)) \<Rightarrow>
                 Some (Return (Some (Error (''list folder '' @ p @ '': '' @ msg))), f)
             | (entries, None) \<Rightarrow>
                 if isRecursive then
                   (case deleteSubs n ops entries isRecursive shouldDeleteChunks f of
                      None \<Rightarrow> None
                    | Some (Panic, f1) \<Rightarrow> Some (Panic, f1)
                    | Some (Return u, f1) \<Rightarrow>
                        Some (deleteEntryAndChunks ops p entry shouldDeleteChunks
                                (cacheDelDirectory p f1)))
                 else if length entries > 0 then
                   Some (Return (Some (Error (''folder '' @ p @ '' is not empty''))), f)
                 else
                   Some (deleteEntryAndChunks ops p entry shouldDeleteChunks
                           (cacheDelDirectory p f)))
          else Some (deleteEntryAndChunks ops p entry shouldDeleteChunks f))"
| "deleteSubs n ops [] isRecursive shouldDeleteChunks f = Some (Return (), f)"
| "deleteSubs n ops (sub # subs) isRecursive shouldDeleteChunks f =
     (case DeleteEntryMetaAndData n ops (FullPath sub) isRecursive shouldDeleteChunks f of
        None \<Rightarrow> None
      | Some (Panic, f1) \<Rightarrow> Some (Panic, f1)
      | Some (Return err, f1) \<Rightarrow> deleteSubs n ops subs isRecursive shouldDeleteChunks f1)"

section \<open>An in-memory Entry Store\<close>

text \<open>
  No implementation of \<open>FilerStore\<close> is part of filer.go. The store of this section
  follows the spec's description of the Entry Store capability; it keeps the entries in a
  list, one per path, and is the concrete store on which the theorems are run.
\<close>

text \<open>Byte-wise order of Go strings.\<close>

fun strLess :: "string \<Rightarrow> string \<Rightarrow> bool" where
  "strLess [] [] = False"
| "strLess [] (y # ys) = True"
| "strLess (x # xs) [] = False"
| "strLess (x # xs) (y # ys) =
     ((of_char x :: nat) < of_char y \<or> (x = y \<and> strLess xs ys))"

text \<open>Modelled from the spec: the listing of the Entry Store is missing; it lists the
  immediate children of a directory. This is the name under which \<open>path\<close> is an immediate
  child of directory \<open>dir\<close>, if it is one.\<close>

definition childName :: "FullPath \<Rightarrow> FullPath \<Rightarrow> string option" where
  "childName dir path =
     (let pre = (if dir = ''/'' then ''/'' else dir @ ''/'');
          name = drop (length pre) path
      in if take (length pre) path = pre \<and> name \<noteq> [] \<and> CHR ''/'' \<notin> set name
         then Some name else None)"

text \<open>Modelled from the spec: the listing of the Entry Store is missing; it "returns
  entries in path-sorted order". This inserts an entry into a list sorted by path.\<close>

primrec insortPath :: "Entry \<Rightarrow> Entry list \<Rightarrow> Entry list" where
  "insortPath e [] = [e]"
| "insortPath e (x # xs) =
     (if strLess (FullPath x) (FullPath e) then x # insortPath e xs else e # x # xs)"

text \<open>Modelled from the spec: \<open>FilerStore.FindEntry\<close> is missing;
  "\<open>FindEntry(path) -> (entry, error)\<close> - fails with a not-found kind when absent".\<close>

definition memFindEntry :: "FullPath \<Rightarrow> Entry list \<Rightarrow> Entry option \<times> error option" where
  "memFindEntry p s =
     (case find (\<lambda>e. FullPath e = p) s of
        None \<Rightarrow> (None, Some (Error ''not found''))
      | Some e \<Rightarrow> (Some e, None))"

text \<open>Modelled from the spec: \<open>FilerStore.InsertEntry\<close> is missing;
  "\<open>InsertEntry(entry) -> error\<close> - fails if an entry already exists at the path".\<close>

definition memInsertEntry :: "Entry \<Rightarrow> Entry list \<Rightarrow> error option \<times> Entry list" where
  "memInsertEntry entry s =
     (if list_ex (\<lambda>e. FullPath e = FullPath entry) s
      then (Some (Error ''entry already exists''), s)
      else (None, insortPath entry s))"

text \<open>Modelled from the spec: \<open>FilerStore.UpdateEntry\<close> is missing;
  "\<open>UpdateEntry(entry) -> error\<close> - replaces an existing entry's attributes/chunks".\<close>

definition memUpdateEntry :: "Entry \<Rightarrow> Entry list \<Rightarrow> error option \<times> Entry list" where
  "memUpdateEntry entry s =
     (if list_ex (\<lambda>e. FullPath e = FullPath entry) s
      then (None, map (\<lambda>e. if FullPath e = FullPath entry then entry else e) s)
      else (Some (Error ''not found''), s))"

text \<open>Modelled from the spec: \<open>FilerStore.DeleteEntry\<close> is missing;
  "\<open>DeleteEntry(path) -> error\<close>". Deleting never fails here, and deleting an absent
  path changes nothing.\<close>

definition memDeleteEntry :: "FullPath \<Rightarrow> Entry list \<Rightarrow> error option \<times> Entry list" where
  "memDeleteEntry p s = (None, filter (\<lambda>e. FullPath e \<noteq> p) s)"

text \<open>Modelled from the spec: \<open>FilerStore.ListDirectoryEntries\<close> is missing; the Entry
  Store "returns entries in path-sorted order starting at \<open>startFileName\<close> (inclusive or
  exclusive per flag), bounded by \<open>limit\<close>".\<close>

definition memListDirectoryEntries ::
  "FullPath \<Rightarrow> string \<Rightarrow> bool \<Rightarrow> int \<Rightarrow> Entry list \<Rightarrow> Entry list \<times> error option" where
  "memListDirectoryEntries p startFileName inclusive limit s =
     (take (nat limit)
        (filter (\<lambda>e. case childName p (FullPath e) of
                        None \<Rightarrow> False
                      | Some name \<Rightarrow>
                          strLess startFileName name \<or> (inclusive \<and> name = startFileName))
           (foldr insortPath s [])),
      None)"

definition memStore :: "Entry list FilerStore" where
  "memStore =
     \<lparr>store_InsertEntry = memInsertEntry,
      store_UpdateEntry = memUpdateEntry,
      store_FindEntry = memFindEntry,
      store_DeleteEntry = memDeleteEntry,
      store_ListDirectoryEntries = memListDirectoryEntries\<rparr>"

text \<open>Modelled from the spec: a store with a failing backend is missing; the spec's
  BackendFailure is "the Entry Store operation itself failed". This is the same store
  with a backend that refuses to delete the paths in \<open>bad\<close>.\<close>

definition failingDeleteStore :: "FullPath list \<Rightarrow> Entry list FilerStore" where
  "failingDeleteStore bad =
     memStore\<lparr>store_DeleteEntry :=
       (\<lambda>p s. if p \<in> set bad then (Some (Error ''backend unavailable''), s)
              else memDeleteEntry p s)\<rparr>"

text \<open>Sample entries and filers for the concrete runs.\<close>

definition fileEntry :: "FullPath \<Rightarrow> string list \<Rightarrow> Entry" where
  "fileEntry p ids =
     \<lparr>FullPath = p,
      Attr = \<lparr>Mtime = 0, Crtime = 0, Mode = 420, Uid = 7, Gid = 8\<rparr>,
      Chunks = map (\<lambda>i. \<lparr>FileId = i, Offset = 0, Size = 1\<rparr>) ids\<rparr>"

definition dirEntry0 :: "FullPath \<Rightarrow> Entry" where
  "dirEntry0 p =
     \<lparr>FullPath = p,
      Attr = \<lparr>Mtime = 0, Crtime = 0, Mode = ModeDir OR perm0770, Uid = 7, Gid = 8\<rparr>,
      Chunks = []\<rparr>"

text \<open>A master that knows every chunk on volume server \<open>vol1\<close>, and one that knows
  none (the lookup fails and returns the empty location).\<close>

definition knownMaster :: "string \<Rightarrow> string \<times> error option" where
  "knownMaster fileId = (''vol1/'' @ fileId, None)"

definition unknownMaster :: "string \<Rightarrow> string \<times> error option" where
  "unknownMaster fileId = ([], Some (Error ''not found''))"

definition memFiler :: "Entry list \<Rightarrow> Entry list Filer" where
  "memFiler s =
     \<lparr>store = s, directoryCache = Some Map.empty, MasterClient = knownMaster, calls = []\<rparr>"

text \<open>A small tree: directory \<open>/d\<close> with the two files \<open>/d/x\<close> and \<open>/d/y\<close>.\<close>

definition sampleStore :: "Entry list" where
  "sampleStore = [dirEntry0 ''/'', dirEntry0 ''/d'', fileEntry ''/d/x'' [''1'', ''2''],
                  fileEntry ''/d/y'' [''3'']]"

text \<open>Readings of the clock, a new file \<open>/a/b/c\<close>, and a file that sits at \<open>/a\<close>.\<close>

definition sampleClock :: "nat \<Rightarrow> time" where
  "sampleClock i = 100 + int i"

definition sampleNew :: Entry where
  "sampleNew = fileEntry ''/a/b/c'' [''1'']"

definition fileA :: Entry where
  "fileA = fileEntry ''/a'' [''9'']"

text \<open>A filer whose store holds the root directory and the file \<open>/a\<close>.\<close>

definition conflictFiler :: "Entry list Filer" where
  "conflictFiler = memFiler [dirEntry0 ''/'', fileA]"

text \<open>
  A filer reached through its own operations from the empty one: creating \<open>/a/x\<close>
  makes the directories \<open>/\<close> and \<open>/a\<close> and caches them; \<open>UpdateEntry\<close> then replaces
  \<open>/a\<close> in the store by a file, which does not touch the cache.
\<close>

definition staleCacheFiler :: "Entry list Filer" where
  "staleCacheFiler =
     snd (UpdateEntry memStore fileA
            (snd (CreateEntry memStore sampleClock (fileEntry ''/a/x'' []) (memFiler []))))"

text \<open>The sample filer after the delete of \<open>/d/x\<close> was refused by the backend: the
  chunks of \<open>/d/x\<close> are reclaimed, the store is as before.\<close>

definition failedChild :: "Entry list Filer" where
  "failedChild =
     (memFiler sampleStore)\<lparr>calls :=
        [LookupFileId ''1'', DeleteFromVolumeServer ''vol1/1'' [],
         LookupFileId ''2'', DeleteFromVolumeServer ''vol1/2'' [],
         DeleteEntry ''/d/x'']\<rparr>"

section \<open>Directory cache time to live\<close>

lemma level_cases:
  fixes level :: "64 word"
  assumes "1 \<le>s level" "level <s 10"
  shows "level = 1 \<or> level = 2 \<or> level = 3 \<or> level = 4 \<or> level = 5 \<or>
         level = 6 \<or> level = 7 \<or> level = 8 \<or> level = 9"
proof -
  from assms have "1 \<le> sint level" "sint level < 10"
    by (simp_all add: word_sle_eq word_sless_alt)
  then have "sint level = 1 \<or> sint level = 2 \<or> sint level = 3 \<or> sint level = 4 \<or>
             sint level = 5 \<or> sint level = 6 \<or> sint level = 7 \<or> sint level = 8 \<or>
             sint level = 9"
    by arith
  moreover have "\<And>k. sint level = k \<Longrightarrow> level = word_of_int k"
    by auto
  ultimately show ?thesis
    by fastforce
qed

lemma cacheMinutes_sint:
  assumes "1 \<le>s level"
  shows "sint (cacheMinutes level) = (if sint level < 10 then 60 - 6 * sint level else 60)"
proof (cases "level <s 10")
  case True
  from level_cases [OF assms True] show ?thesis
    by (elim disjE; simp add: cacheMinutes_def word_sless_alt)
next
  case False
  then show ?thesis by (simp add: cacheMinutes_def word_sless_alt)
qed

lemma cacheDuration_sint:
  assumes "1 \<le>s level"
  shows "sint (cacheMinutes level * Minute) =
           (if sint level < 10 then 60 - 6 * sint level else 60) * 60000000000"
proof (cases "level <s 10")
  case True
  from level_cases [OF assms True] show ?thesis
    by (elim disjE; simp add: cacheMinutes_def Minute_def word_sless_alt)
next
  case False
  then show ?thesis by (simp add: cacheMinutes_def Minute_def word_sless_alt)
qed

text \<open>
  Claim C7. For every level of at least 1, \<open>cacheSetDirectory\<close> (with the cache enabled)
  stores the entry with a time to live of \<open>60 - 6 * level\<close> minutes when \<open>level < 10\<close>
  and of 60 minutes otherwise. Both the minutes and the duration in nanoseconds are read
  as signed 64-bit numbers, so the arithmetic does not wrap on these levels.
\<close>

theorem cacheSetDirectory_ttl:
  "1 \<le>s level \<Longrightarrow> directoryCache f = Some c \<Longrightarrow>
   directoryCache (cacheSetDirectory dirpath dirEntry level f) =
     Some (c(dirpath \<mapsto> \<lparr>Value = dirEntry, TTL = cacheMinutes level * Minute\<rparr>)) \<and>
   sint (cacheMinutes level) = (if sint level < 10 then 60 - 6 * sint level else 60) \<and>
   sint (cacheMinutes level * Minute) =
     (if sint level < 10 then 60 - 6 * sint level else 60) * 60000000000"
  by (simp add: cacheSetDirectory_def cacheMinutes_sint cacheDuration_sint)

text \<open>Levels 1, 9 and 10 give 54, 6 and 60 minutes.\<close>

theorem cacheSetDirectory_ttl_witness:
  "(1 :: 64 word) \<le>s 1 \<and> (1 :: 64 word) \<le>s 9 \<and> (1 :: 64 word) \<le>s 10 \<and>
   sint (cacheMinutes 1) = 54 \<and> sint (cacheMinutes 9) = 6 \<and> sint (cacheMinutes 10) = 60 \<and>
   map_option TTL
     (the (directoryCache (cacheSetDirectory ''/a'' (dirEntry0 ''/a'') 1 (memFiler []))) ''/a'')
     = Some (54 * Minute)"
  using cacheSetDirectory_ttl [of 1 "memFiler []" Map.empty "''/a''" "dirEntry0 ''/a''"]
        cacheSetDirectory_ttl [of 9 "memFiler []" Map.empty "''/a''" "dirEntry0 ''/a''"]
        cacheSetDirectory_ttl [of 10 "memFiler []" Map.empty "''/a''" "dirEntry0 ''/a''"]
  by (simp add: memFiler_def word_sle_eq cacheMinutes_def word_sless_alt)

section \<open>Chunk reclamation\<close>

lemma DeleteFileByFileId_eq:
  "DeleteFileByFileId fileId f =
     f\<lparr>calls := calls f @ [LookupFileId fileId,
                            DeleteFromVolumeServer (fst (MasterClient f fileId)) []]\<rparr>"
  by (simp add: DeleteFileByFileId_def split: prod.split)

lemma deleteChunks_eq:
  "deleteChunks chunks f =
     f\<lparr>calls := calls f @
          concat (map (\<lambda>c. [LookupFileId (FileId c),
                             DeleteFromVolumeServer (fst (MasterClient f (FileId c))) []])
                      chunks)\<rparr>"
  by (induction chunks arbitrary: f) (simp_all add: DeleteFileByFileId_eq)

lemma foundIn_iff: "foundIn c ns \<longleftrightarrow> FileId c \<in> FileId ` set ns"
  by (induction ns) auto

lemma collectToDelete_Some:
  "collectToDelete olds (Some new) acc =
     Return (acc @ filter (\<lambda>c. FileId c \<notin> FileId ` set (Chunks new)) olds)"
  by (induction olds arbitrary: acc) (simp_all add: foundIn_iff)

text \<open>
  Claim C9. When the lookup of a chunk identifier fails, \<open>DeleteFileByFileId\<close> still
  sends the delete request to the volume server, with the location that the failed lookup
  returned (the empty string when the lookup returns Go's zero value) and an empty token;
  nothing else changes.
\<close>

theorem DeleteFileByFileId_failed_lookup:
  "MasterClient f fileId = (url, Some err) \<Longrightarrow>
   DeleteFileByFileId fileId f =
     f\<lparr>calls := calls f @ [LookupFileId fileId, DeleteFromVolumeServer url []]\<rparr>"
  by (simp add: DeleteFileByFileId_def)

theorem DeleteFileByFileId_failed_lookup_witness:
  "MasterClient ((memFiler [])\<lparr>MasterClient := unknownMaster\<rparr>) ''3,01637037d6'' =
     ([], Some (Error ''not found'')) \<and>
   calls (DeleteFileByFileId ''3,01637037d6'' ((memFiler [])\<lparr>MasterClient := unknownMaster\<rparr>)) =
     [LookupFileId ''3,01637037d6'', DeleteFromVolumeServer [] []]"
  using DeleteFileByFileId_failed_lookup [of "(memFiler [])\<lparr>MasterClient := unknownMaster\<rparr>"
          "''3,01637037d6''" "[]" "Error ''not found''"]
  by (simp add: memFiler_def unknownMaster_def)

text \<open>
  Claim C3. With both entries present, \<open>deleteChunksIfNotNew\<close> returns normally, and the
  requests it sends are exactly one lookup and one delete for each chunk of the old entry
  whose identifier is not an identifier of the new entry, in the order of the old list:
  a chunk whose identifier occurs in both lists is not reclaimed wherever it stands, and
  no request is made for a chunk that only the new entry has.
\<close>

theorem deleteChunksIfNotNew_reclaims_difference:
  "deleteChunksIfNotNew (Some old) (Some new) f =
     (Return (),
      f\<lparr>calls := calls f @
          concat (map (\<lambda>c. [LookupFileId (FileId c),
                             DeleteFromVolumeServer (fst (MasterClient f (FileId c))) []])
                      (filter (\<lambda>c. FileId c \<notin> FileId ` set (Chunks new)) (Chunks old)))\<rparr>)"
  by (simp add: deleteChunksIfNotNew_def collectToDelete_Some deleteChunks_eq)

text \<open>Replacing the chunks 1, 2, 3 by 2, 3, 4 reclaims chunk 1 and nothing else.\<close>

theorem deleteChunksIfNotNew_reclaims_difference_witness:
  "deleteChunksIfNotNew (Some (fileEntry ''/f'' [''1'', ''2'', ''3'']))
       (Some (fileEntry ''/f'' [''2'', ''3'', ''4''])) (memFiler []) =
     (Return (),
      (memFiler [])\<lparr>calls := [LookupFileId ''1'', DeleteFromVolumeServer ''vol1/1'' []]\<rparr>) \<and>
   reclaimed (calls (snd (deleteChunksIfNotNew (Some (fileEntry ''/f'' [''1'', ''2'', ''3'']))
       (Some (fileEntry ''/f'' [''2'', ''3'', ''4''])) (memFiler [])))) = [''1'']"
  using deleteChunksIfNotNew_reclaims_difference [of "fileEntry ''/f'' [''1'', ''2'', ''3'']"
          "fileEntry ''/f'' [''2'', ''3'', ''4'']" "memFiler []"]
  by (simp add: fileEntry_def memFiler_def knownMaster_def)

text \<open>
  Claim C2. The claim says that \<open>deleteChunksIfNotNew(oldEntry, nil)\<close> reclaims every
  chunk of the old entry and completes without fault. The code has no \<open>return\<close> after
  the pure-delete branch: it reclaims every chunk and then falls into the loop that reads
  \<open>newEntry.Chunks\<close>. So for every old entry with at least one chunk the call panics
  after the chunks have been reclaimed.
\<close>

theorem deleteChunksIfNotNew_nil_new_panics:
  "Chunks old \<noteq> [] \<Longrightarrow>
   deleteChunksIfNotNew (Some old) None f = (Panic, deleteChunks (Chunks old) f)"
  by (cases "Chunks old") (simp_all add: deleteChunksIfNotNew_def)

theorem deleteChunksIfNotNew_nil_new_panics_witness:
  "Chunks (fileEntry ''/f'' [''1'']) \<noteq> [] \<and>
   deleteChunksIfNotNew (Some (fileEntry ''/f'' [''1''])) None (memFiler []) =
     (Panic, (memFiler [])\<lparr>calls := [LookupFileId ''1'', DeleteFromVolumeServer ''vol1/1'' []]\<rparr>)"
  using deleteChunksIfNotNew_nil_new_panics [of "fileEntry ''/f'' [''1'']" "memFiler []"]
  by (simp add: fileEntry_def memFiler_def knownMaster_def DeleteFileByFileId_def)

section \<open>Listing\<close>

lemma HasSuffix_slash: "strings_HasSuffix p ''/'' \<longleftrightarrow> p \<noteq> [] \<and> last p = CHR ''/''"
  by (cases p rule: rev_cases) (simp_all add: strings_HasSuffix_def)

text \<open>
  Claim C8. For a non-empty path \<open>p\<close> that does not end in a slash, listing \<open>p/\<close> gives
  what listing \<open>p\<close> gives, for every start name, inclusive flag and limit: both are the
  store's listing of \<open>p\<close>. The root \<open>/\<close> is handed to the store as it is.
\<close>

theorem ListDirectoryEntries_trailing_slash:
  "p \<noteq> [] \<Longrightarrow> last p \<noteq> CHR ''/'' \<Longrightarrow>
   ListDirectoryEntries ops (p @ ''/'') startFileName inclusive limit f =
     ListDirectoryEntries ops p startFileName inclusive limit f \<and>
   ListDirectoryEntries ops p startFileName inclusive limit f =
     store_ListDirectoryEntries ops p startFileName inclusive limit (store f) \<and>
   ListDirectoryEntries ops ''/'' startFileName inclusive limit f =
     store_ListDirectoryEntries ops ''/'' startFileName inclusive limit (store f)"
  by (simp add: ListDirectoryEntries_def HasSuffix_slash)

theorem ListDirectoryEntries_trailing_slash_witness:
  "''/a/b'' \<noteq> [] \<and> last ''/a/b'' \<noteq> CHR ''/'' \<and>
   ListDirectoryEntries memStore ''/a/b/'' [] False 10
       (memFiler [dirEntry0 ''/a/b'', fileEntry ''/a/b/c'' [], fileEntry ''/a/b/d'' []]) =
     ListDirectoryEntries memStore ''/a/b'' [] False 10
       (memFiler [dirEntry0 ''/a/b'', fileEntry ''/a/b/c'' [], fileEntry ''/a/b/d'' []]) \<and>
   ListDirectoryEntries memStore ''/a/b'' [] False 10
       (memFiler [dirEntry0 ''/a/b'', fileEntry ''/a/b/c'' [], fileEntry ''/a/b/d'' []]) =
     ([fileEntry ''/a/b/c'' [], fileEntry ''/a/b/d'' []], None)"
proof -
  have "store_ListDirectoryEntries memStore ''/a/b'' [] False 10
          (store (memFiler [dirEntry0 ''/a/b'', fileEntry ''/a/b/c'' [], fileEntry ''/a/b/d'' []])) =
        ([fileEntry ''/a/b/c'' [], fileEntry ''/a/b/d'' []], None)"
    by (simp add: memStore_def memFiler_def memListDirectoryEntries_def childName_def
          fileEntry_def dirEntry0_def)
  with ListDirectoryEntries_trailing_slash [of "''/a/b''" memStore "[]" False 10
          "memFiler [dirEntry0 ''/a/b'', fileEntry ''/a/b/c'' [], fileEntry ''/a/b/d'' []]"]
  show ?thesis by auto
qed

section \<open>Deleting\<close>

lemma find_sample_d:
  "FindEntry memStore ''/d'' (memFiler sampleStore) = (Some (dirEntry0 ''/d''), None)"
  by (simp add: FindEntry_def memStore_def memFindEntry_def memFiler_def sampleStore_def
        dirEntry0_def fileEntry_def)

lemma IsDirectory_dirEntry0: "IsDirectory (dirEntry0 p)"
  by (simp add: IsDirectory_def dirEntry0_def ModeDir_def perm0770_def)

lemma list_sample_d:
  "ListDirectoryEntries memStore ''/d'' [] False 1 (memFiler sampleStore) =
     ([fileEntry ''/d/x'' [''1'', ''2'']], None)"
  by (simp add: ListDirectoryEntries_def strings_HasSuffix_def memStore_def
        memListDirectoryEntries_def memFiler_def sampleStore_def childName_def
        dirEntry0_def fileEntry_def)

text \<open>
  Claim C4. When the entry at \<open>p\<close> is a directory and the store's listing of \<open>p\<close>
  (from the empty start name, exclusive, limit 1) shows a child, a non-recursive
  \<open>DeleteEntryMetaAndData\<close> returns the error "folder p is not empty" and leaves the
  filer as it was: the store, the cache and the recorded requests are unchanged, so no
  entry is removed and no chunk is reclaimed.
\<close>

theorem DeleteEntryMetaAndData_not_empty:
  "FindEntry ops p f = (Some entry, None) \<Longrightarrow> IsDirectory entry \<Longrightarrow>
   ListDirectoryEntries ops p [] False 1 f = (entries, None) \<Longrightarrow> entries \<noteq> [] \<Longrightarrow>
   DeleteEntryMetaAndData (Suc n) ops p False shouldDeleteChunks f =
     Some (Return (Some (Error (''folder '' @ p @ '' is not empty''))), f)"
  by simp

theorem DeleteEntryMetaAndData_not_empty_witness:
  "FindEntry memStore ''/d'' (memFiler sampleStore) = (Some (dirEntry0 ''/d''), None) \<and>
   IsDirectory (dirEntry0 ''/d'') \<and>
   ListDirectoryEntries memStore ''/d'' [] False 1 (memFiler sampleStore) =
     ([fileEntry ''/d/x'' [''1'', ''2'']], None) \<and>
   DeleteEntryMetaAndData (Suc 0) memStore ''/d'' False True (memFiler sampleStore) =
     Some (Return (Some (Error ''folder /d is not empty'')), memFiler sampleStore)"
  using DeleteEntryMetaAndData_not_empty [OF find_sample_d IsDirectory_dirEntry0 list_sample_d,
          of 0 True]
        find_sample_d IsDirectory_dirEntry0 [of "''/d''"] list_sample_d
  by simp

lemma set_insortPath: "set (insortPath e xs) = insert e (set xs)"
  by (induction xs) auto

lemma set_sorted_store: "set (foldr insortPath s []) = set s"
  by (induction s) (simp_all add: set_insortPath)

lemma strLess_Nil: "name \<noteq> [] \<Longrightarrow> strLess [] name"
  by (cases name) simp_all

lemma childName_nonempty: "childName p q = Some name \<Longrightarrow> name \<noteq> []"
  by (auto simp: childName_def Let_def split: if_splits)

text \<open>In the in-memory store, the listing made by the emptiness test shows a child
  whenever the directory has one.\<close>

lemma memStore_lists_a_child:
  assumes "e \<in> set s" and "childName p (FullPath e) = Some name"
  shows "fst (store_ListDirectoryEntries memStore p [] False 1 s) \<noteq> []"
proof -
  let ?P = "\<lambda>e. case childName p (FullPath e) of
                   None \<Rightarrow> False
                 | Some name \<Rightarrow> strLess [] name \<or> (False \<and> name = [])"
  have "?P e"
    using assms(2) by (simp add: strLess_Nil childName_nonempty)
  with assms(1) have "filter ?P (foldr insortPath s []) \<noteq> []"
    by (auto simp: filter_empty_conv set_sorted_store)
  then show ?thesis
    by (cases "filter ?P (foldr insortPath s [])")
       (simp_all add: memStore_def memListDirectoryEntries_def)
qed

lemma deleteChunks_store [simp]: "store (deleteChunks chunks f) = store f"
  by (simp add: deleteChunks_eq)

lemma deleteChunks_cache [simp]: "directoryCache (deleteChunks chunks f) = directoryCache f"
  by (simp add: deleteChunks_eq)

lemma cacheGet_cacheDel [simp]: "cacheGetDirectory p (cacheDelDirectory p f) = None"
  by (simp add: cacheGetDirectory_def cacheDelDirectory_def split: option.splits)

lemma deleteEntryAndChunks_result:
  "deleteEntryAndChunks ops p entry sdc f = (r, f') \<Longrightarrow>
   r = Return (fst (store_DeleteEntry ops p (store f))) \<and>
   store f' = snd (store_DeleteEntry ops p (store f)) \<and>
   directoryCache f' = directoryCache f \<and>
   calls f' = calls (if sdc then deleteChunks (Chunks entry) f else f) @ [DeleteEntry p]"
  by (auto simp: deleteEntryAndChunks_def storeDeleteEntry_def Let_def
           split: prod.splits if_splits)

lemmas mem_defs = memStore_def memFindEntry_def memInsertEntry_def memUpdateEntry_def
  memDeleteEntry_def memListDirectoryEntries_def childName_def memFiler_def

text \<open>
  Claim C1. The claim says that a recursive delete removes every descendant of the
  directory before the directory itself. The code lists the children with limit 1, the
  listing made for the emptiness test, and loops over that listing: at most one child is
  deleted. On the directory \<open>/d\<close> with the files \<open>/d/x\<close> and \<open>/d/y\<close> the call returns
  no error, reclaims the chunks 1 and 2 of \<open>/d/x\<close>, deletes \<open>/d/x\<close> and then \<open>/d\<close>;
  \<open>/d/y\<close> stays in the store without a parent and its chunk 3 is not reclaimed.
\<close>

theorem recursive_delete_leaves_siblings:
  "map_option (\<lambda>(r, f). (r, store f, calls f))
     (DeleteEntryMetaAndData 3 memStore ''/d'' True True (memFiler sampleStore)) =
   Some (Return None, [dirEntry0 ''/'', fileEntry ''/d/y'' [''3'']],
     [LookupFileId ''1'', DeleteFromVolumeServer ''vol1/1'' [],
      LookupFileId ''2'', DeleteFromVolumeServer ''vol1/2'' [],
      DeleteEntry ''/d/x'', DeleteEntry ''/d''])"
  by code_simp

text \<open>
  Claim C10. In a recursive delete of a directory, whatever the recursive delete of the
  first listed child returns (\<open>childErr\<close>), the call goes on with the remaining children,
  invalidates the cache entry of the directory, reclaims the directory's chunks if asked
  to, and deletes the directory from the store; what it returns is the error of that
  last store request alone.
\<close>

theorem recursive_delete_discards_child_error:
  assumes "FindEntry ops p f = (Some entry, None)"
    and "IsDirectory entry"
    and "ListDirectoryEntries ops p [] False 1 f = (sub # subs, None)"
    and "DeleteEntryMetaAndData n ops (FullPath sub) True sdc f = Some (Return childErr, f1)"
    and "deleteSubs n ops subs True sdc f1 = Some (Return (), f2)"
  shows "\<exists>f'. DeleteEntryMetaAndData (Suc n) ops p True sdc f =
                Some (Return (fst (store_DeleteEntry ops p (store f2))), f') \<and>
              store f' = snd (store_DeleteEntry ops p (store f2)) \<and>
              cacheGetDirectory p f' = None \<and>
              calls f' = calls (if sdc then deleteChunks (Chunks entry) f2 else f2) @ [DeleteEntry p]"
proof -
  obtain r f' where d: "deleteEntryAndChunks ops p entry sdc (cacheDelDirectory p f2) = (r, f')"
    by (cases "deleteEntryAndChunks ops p entry sdc (cacheDelDirectory p f2)")
  have c: "store (cacheDelDirectory p f2) = store f2" "calls (cacheDelDirectory p f2) = calls f2"
    "MasterClient (cacheDelDirectory p f2) = MasterClient f2"
    by (simp_all add: cacheDelDirectory_def split: option.splits)
  from deleteEntryAndChunks_result [OF d] c
  have r: "r = Return (fst (store_DeleteEntry ops p (store f2)))"
    and s: "store f' = snd (store_DeleteEntry ops p (store f2))"
    and dc: "directoryCache f' = directoryCache (cacheDelDirectory p f2)"
    and cl: "calls f' = calls (if sdc then deleteChunks (Chunks entry) f2 else f2) @ [DeleteEntry p]"
    by (simp_all add: deleteChunks_eq)
  have g: "cacheGetDirectory p f' = None"
    using cacheGet_cacheDel [of p f2] dc by (simp add: cacheGetDirectory_def)
  from assms d r have "DeleteEntryMetaAndData (Suc n) ops p True sdc f =
        Some (Return (fst (store_DeleteEntry ops p (store f2))), f')"
    by simp
  with s g cl show ?thesis by blast
qed

lemma failing_find_d:
  "FindEntry (failingDeleteStore [''/d/x'']) ''/d'' (memFiler sampleStore) =
     (Some (dirEntry0 ''/d''), None)"
  by (simp add: failingDeleteStore_def FindEntry_def mem_defs sampleStore_def
        dirEntry0_def fileEntry_def)

lemma failing_list_d:
  "ListDirectoryEntries (failingDeleteStore [''/d/x'']) ''/d'' [] False 1 (memFiler sampleStore) =
     (fileEntry ''/d/x'' [''1'', ''2''] # [], None)"
  by (simp add: failingDeleteStore_def ListDirectoryEntries_def strings_HasSuffix_def mem_defs
        sampleStore_def dirEntry0_def fileEntry_def)

lemma failing_child:
  "DeleteEntryMetaAndData (Suc 0) (failingDeleteStore [''/d/x''])
       (FullPath (fileEntry ''/d/x'' [''1'', ''2''])) True True (memFiler sampleStore) =
     Some (Return (Some (Error ''backend unavailable'')), failedChild)"
  by (simp add: failingDeleteStore_def FindEntry_def mem_defs sampleStore_def
        dirEntry0_def fileEntry_def IsDirectory_def ModeDir_def deleteEntryAndChunks_def
        storeDeleteEntry_def DeleteFileByFileId_def knownMaster_def failedChild_def)

lemma failing_rest:
  "deleteSubs (Suc 0) (failingDeleteStore [''/d/x'']) [] True True failedChild =
     Some (Return (), failedChild)"
  by simp

text \<open>With a backend that refuses to delete \<open>/d/x\<close>, the delete of the child returns
  an error, and the recursive delete of \<open>/d\<close> still returns no error and removes \<open>/d\<close>.\<close>

theorem recursive_delete_discards_child_error_witness:
  "FindEntry (failingDeleteStore [''/d/x'']) ''/d'' (memFiler sampleStore) =
     (Some (dirEntry0 ''/d''), None) \<and>
   IsDirectory (dirEntry0 ''/d'') \<and>
   ListDirectoryEntries (failingDeleteStore [''/d/x'']) ''/d'' [] False 1 (memFiler sampleStore) =
     (fileEntry ''/d/x'' [''1'', ''2''] # [], None) \<and>
   DeleteEntryMetaAndData (Suc 0) (failingDeleteStore [''/d/x''])
       (FullPath (fileEntry ''/d/x'' [''1'', ''2''])) True True (memFiler sampleStore) =
     Some (Return (Some (Error ''backend unavailable'')), failedChild) \<and>
   deleteSubs (Suc 0) (failingDeleteStore [''/d/x'']) [] True True failedChild =
     Some (Return (), failedChild) \<and>
   (\<exists>f'. DeleteEntryMetaAndData (Suc (Suc 0)) (failingDeleteStore [''/d/x'']) ''/d'' True True
            (memFiler sampleStore) = Some (Return None, f') \<and>
         store f' = [dirEntry0 ''/'', fileEntry ''/d/x'' [''1'', ''2''], fileEntry ''/d/y'' [''3'']] \<and>
         cacheGetDirectory ''/d'' f' = None)"
proof -
  have del: "store_DeleteEntry (failingDeleteStore [''/d/x'']) ''/d'' (store failedChild) =
               (None, [dirEntry0 ''/'', fileEntry ''/d/x'' [''1'', ''2''], fileEntry ''/d/y'' [''3'']])"
    by (simp add: failingDeleteStore_def failedChild_def mem_defs sampleStore_def dirEntry0_def
          fileEntry_def)
  from recursive_delete_discards_child_error [OF failing_find_d IsDirectory_dirEntry0
         failing_list_d failing_child failing_rest]
  obtain f' where t:
    "DeleteEntryMetaAndData (Suc (Suc 0)) (failingDeleteStore [''/d/x'']) ''/d'' True True
       (memFiler sampleStore) =
     Some (Return (fst (store_DeleteEntry (failingDeleteStore [''/d/x'']) ''/d'' (store failedChild))), f')"
    "store f' = snd (store_DeleteEntry (failingDeleteStore [''/d/x'']) ''/d'' (store failedChild))"
    "cacheGetDirectory ''/d'' f' = None"
    by (elim exE conjE) (rule that, assumption+)
  have "\<exists>f'. DeleteEntryMetaAndData (Suc (Suc 0)) (failingDeleteStore [''/d/x'']) ''/d'' True True
            (memFiler sampleStore) = Some (Return None, f') \<and>
         store f' = [dirEntry0 ''/'', fileEntry ''/d/x'' [''1'', ''2''], fileEntry ''/d/y'' [''3'']] \<and>
         cacheGetDirectory ''/d'' f' = None"
    using t by (simp only: del fst_conv snd_conv) blast
  with failing_find_d IsDirectory_dirEntry0 [of "''/d''"] failing_list_d failing_child failing_rest
  show ?thesis by (intro conjI)
qed

section \<open>Paths of the ancestor walk\<close>

lemma Split_length: "length (strings_Split s) = Suc (count_list s (CHR ''/''))"
  by (induction s) (auto split: list.split)

lemma Split_slash_free: "w \<in> set (strings_Split s) \<Longrightarrow> CHR ''/'' \<notin> set w"
  by (induction s arbitrary: w) (auto split: list.splits if_splits)

lemma Split_append_slash:
  "CHR ''/'' \<notin> set w \<Longrightarrow> strings_Split (w @ CHR ''/'' # r) = w # strings_Split r"
  by (induction w) auto

lemma Split_slash_free_word: "CHR ''/'' \<notin> set w \<Longrightarrow> strings_Split w = [w]"
  by (induction w) auto

lemma Split_Join:
  "ws \<noteq> [] \<Longrightarrow> \<forall>w\<in>set ws. CHR ''/'' \<notin> set w \<Longrightarrow> strings_Split (strings_Join ws) = ws"
  by (induction ws rule: strings_Join.induct)
     (simp_all add: Split_slash_free_word Split_append_slash)

lemma count_Join:
  "\<forall>w\<in>set ws. CHR ''/'' \<notin> set w \<Longrightarrow> count_list (strings_Join ws) (CHR ''/'') = length ws - 1"
  by (induction ws rule: strings_Join.induct) (simp_all add: count_list_0_iff)

lemma cleanElems_bounds:
  "length (cleanElems rooted es out) \<le> length es + length out \<and>
   set (cleanElems rooted es out) \<subseteq> set es \<union> set out"
proof (induction es arbitrary: out)
  case Nil
  show ?case by simp
next
  case (Cons e es)
  show ?case
  proof (cases "e = [] \<or> e = ''.''")
    case True
    with Cons.IH [of out] show ?thesis by auto
  next
    case False
    show ?thesis
    proof (cases "e = ''..''")
      case dd: True
      show ?thesis
      proof (cases out)
        case Nil
        with dd False Cons.IH [of "[]"] Cons.IH [of "[''..'']"] show ?thesis
          by (cases rooted) auto
      next
        case (Cons e1 rest)
        with dd False Cons.IH [of rest] Cons.IH [of out] Cons.IH [of "''..'' # out"]
        show ?thesis
          by (cases rooted; cases "e1 = ''..''") auto
      qed
    next
      case nd: False
      with False Cons.IH [of "e # out"] show ?thesis by auto
    qed
  qed
qed

lemma Join_hd: "strings_Join (e # es) = e @ (if es = [] then [] else CHR ''/'' # strings_Join es)"
  by (cases es) simp_all

text \<open>Joining slash-free elements gives a path with fewer slashes than elements.\<close>

lemma count_filepath_Join:
  assumes "\<forall>w\<in>set xs. CHR ''/'' \<notin> set w"
  shows "count_list (filepath_Join xs) (CHR ''/'') \<le> length xs - 1"
proof (cases "dropWhile (\<lambda>e. e = []) xs")
  case Nil
  have "filepath_Join xs = []"
    unfolding filepath_Join_def Nil by simp
  then show ?thesis by simp
next
  case (Cons e es)
  let ?ys = "e # es"
  let ?path = "strings_Join ?ys"
  have e: "e \<noteq> []"
    using Cons hd_dropWhile [of "\<lambda>e. e = []" xs] by auto
  have ys: "\<forall>w\<in>set ?ys. CHR ''/'' \<notin> set w"
    using Cons assms set_dropWhileD [of _ "\<lambda>e. e = []" xs] by metis
  have len: "length ?ys \<le> length xs"
    using Cons length_dropWhile_le [of "\<lambda>e. e = []" xs] by simp
  have ne: "?path \<noteq> []"
    using e by (simp add: Join_hd)
  have "hd ?path = hd e"
    using e by (simp add: Join_hd)
  moreover have "hd e \<noteq> CHR ''/''"
    using e ys by (cases e) auto
  ultimately have nr: "hd ?path \<noteq> CHR ''/''" by simp
  let ?cs = "cleanElems False ?ys []"
  have split: "strings_Split ?path = ?ys"
    using ys by (intro Split_Join) simp_all
  have cs_len: "length ?cs \<le> length ?ys" and cs_set: "set ?cs \<subseteq> set ?ys"
    using cleanElems_bounds [of False ?ys "[]"] by simp_all
  have "count_list (strings_Join ?cs) (CHR ''/'') = length ?cs - 1"
    using cs_set ys by (intro count_Join) blast
  then have c: "count_list (strings_Join ?cs) (CHR ''/'') \<le> length xs - 1"
    using cs_len len by linarith
  have "filepath_Join xs = (if strings_Join ?cs = [] then ''.'' else strings_Join ?cs)"
    using Cons ne nr split by (simp add: filepath_Join_def filepath_Clean_def Let_def)
  with c show ?thesis by simp
qed

text \<open>An ancestor path visited before the last iteration of the walk is never the
  path of the entry itself: it has fewer slashes.\<close>

lemma ancestor_path_neq:
  assumes "1 \<le> i" and "Suc i < length (strings_Split s)"
  shows "''/'' @ filepath_Join (take i (strings_Split s)) \<noteq> s"
proof
  assume eq: "''/'' @ filepath_Join (take i (strings_Split s)) = s"
  have "\<forall>w\<in>set (take i (strings_Split s)). CHR ''/'' \<notin> set w"
    using Split_slash_free in_set_takeD by metis
  from count_filepath_Join [OF this]
  have "count_list (filepath_Join (take i (strings_Split s))) (CHR ''/'') \<le> i - 1"
    using assms by simp
  then have "count_list (''/'' @ filepath_Join (take i (strings_Split s))) (CHR ''/'') \<le> i"
    using assms by simp
  with eq have "count_list s (CHR ''/'') \<le> i" by simp
  with assms Split_length [of s] show False by simp
qed

section \<open>Creating\<close>

lemma ancestorLoop_append:
  "ancestorLoop ops now entry parts (xs @ ys) l f =
     (case ancestorLoop ops now entry parts xs l f of
        ((Some e, l1), f1) \<Rightarrow> ((Some e, l1), f1)
      | ((None, l1), f1) \<Rightarrow> ancestorLoop ops now entry parts ys l1 f1)"
  by (induction xs arbitrary: l f) (simp_all add: Let_def split: prod.split sum.split)

lemma resolveAncestor_conflict:
  "lookupDirectory ops dirPath f = Some d \<Longrightarrow> \<not> IsDirectory d \<Longrightarrow>
   resolveAncestor ops t entry dirPath f = (Inl (Error (dirPath @ '' is a file'')), f)"
  by (simp add: resolveAncestor_def)

lemma cacheSetDirectory_calls [simp]:
  "calls (cacheSetDirectory p d lv f) = calls f"
  by (simp add: cacheSetDirectory_def split: option.split)

lemma cacheSetDirectory_store [simp]:
  "store (cacheSetDirectory p d lv f) = store f"
  by (simp add: cacheSetDirectory_def split: option.split)

lemma cacheSetDirectory_master [simp]:
  "MasterClient (cacheSetDirectory p d lv f) = MasterClient f"
  by (simp add: cacheSetDirectory_def split: option.split)

lemma resolveAncestor_calls:
  "resolveAncestor ops t entry p f = (r, f1) \<Longrightarrow>
   calls f1 = calls f \<or> calls f1 = calls f @ [InsertEntry (newDirEntry p t entry)]"
  by (auto simp: resolveAncestor_def storeInsertEntry_def Let_def
           split: option.splits prod.splits error.splits if_splits)

text \<open>The only requests of the ancestor walk are inserts of directory entries that it
  built itself, for indices it visited.\<close>

lemma ancestorLoop_calls:
  "ancestorLoop ops now entry parts xs l f = (r, f') \<Longrightarrow>
   \<exists>js. set js \<subseteq> set xs \<and>
        calls f' = calls f @
          map (\<lambda>i. InsertEntry (newDirEntry (''/'' @ filepath_Join (take i parts)) (now i) entry)) js"
proof (induction xs arbitrary: l f)
  case Nil
  then have "set [] \<subseteq> set ([] :: nat list) \<and> calls f' = calls f @
      map (\<lambda>i. InsertEntry (newDirEntry (''/'' @ filepath_Join (take i parts)) (now i) entry)) []"
    by simp
  then show ?case by blast
next
  case (Cons i xs)
  let ?p = "''/'' @ filepath_Join (take i parts)"
  let ?ev = "\<lambda>i. InsertEntry (newDirEntry (''/'' @ filepath_Join (take i parts)) (now i) entry)"
  obtain a f1 where res: "resolveAncestor ops (now i) entry ?p f = (a, f1)"
    by (cases "resolveAncestor ops (now i) entry ?p f")
  from resolveAncestor_calls [OF res]
  obtain hs where hs: "set hs \<subseteq> {i}" "calls f1 = calls f @ map ?ev hs"
  proof
    assume "calls f1 = calls f"
    then have "set [] \<subseteq> {i} \<and> calls f1 = calls f @ map ?ev []" by simp
    then show ?thesis using that by blast
  next
    assume "calls f1 = calls f @ [InsertEntry (newDirEntry ?p (now i) entry)]"
    then have "set [i] \<subseteq> {i} \<and> calls f1 = calls f @ map ?ev [i]" by simp
    then show ?thesis using that by blast
  qed
  show ?case
  proof (cases a)
    case (Inl e)
    with Cons.prems res have "f' = f1" by simp
    with hs have "set hs \<subseteq> set (i # xs) \<and> calls f' = calls f @ map ?ev hs" by auto
    then show ?thesis by blast
  next
    case (Inr d)
    with Cons.prems res
    have "ancestorLoop ops now entry parts xs (if i = length parts - 1 then Some d else l)
            (cacheSetDirectory ?p d (of_nat i) f1) = (r, f')"
      by simp
    from Cons.IH [OF this] obtain js where
      js: "set js \<subseteq> set xs" "calls f' = calls f1 @ map ?ev js"
      by auto
    with hs have "set (hs @ js) \<subseteq> set (i # xs) \<and> calls f' = calls f @ map ?ev (hs @ js)"
      by auto
    then show ?thesis by blast
  qed
qed

lemma upt_split: "1 \<le> k \<Longrightarrow> k < n \<Longrightarrow> [1..<n] = [1..<k] @ k # [Suc k..<n]"
proof -
  assume k: "1 \<le> k" "k < n"
  then have "[1..<n] = [1..<k] @ [k..<n]"
    by (metis less_imp_le_nat upt_add_eq_append le_Suc_ex)
  moreover from k have "[k..<n] = k # [Suc k..<n]"
    by (simp add: upt_conv_Cons)
  ultimately show ?thesis by simp
qed

lemma newDirEntry_attrs:
  "IsDirectory (newDirEntry p t entry) \<and>
   FullPath (newDirEntry p t entry) = p \<and>
   Mode (Attr (newDirEntry p t entry)) = ModeDir OR perm0770 \<and>
   Mtime (Attr (newDirEntry p t entry)) = Crtime (Attr (newDirEntry p t entry)) \<and>
   Uid (Attr (newDirEntry p t entry)) = Uid (Attr entry) \<and>
   Gid (Attr (newDirEntry p t entry)) = Gid (Attr entry)"
  by (simp add: newDirEntry_def IsDirectory_def ModeDir_def perm0770_def)

text \<open>
  Claim C5, as amended. Let the ancestor walk of \<open>CreateEntry\<close> reach the \<open>k\<close>-th
  ancestor without error (every ancestor before it was found to be a directory or was
  created), and let the lookup of that ancestor - the directory cache first, the Entry
  Store only on a cache miss - yield an entry that is not a directory. Then
  \<open>CreateEntry\<close> returns the error "X is a file" for that ancestor path X, and the filer
  is left in the state that the walk had reached: the only requests made are inserts of
  directory entries built for earlier ancestors, and the target entry is not among them.
\<close>

theorem CreateEntry_ancestor_is_file:
  assumes k: "1 \<le> k" "k < length (strings_Split (FullPath entry))"
    and pre: "ancestorLoop ops now entry (strings_Split (FullPath entry)) [1..<k] None f =
               ((None, l), fk)"
    and look: "lookupDirectory ops (''/'' @ filepath_Join (take k (strings_Split (FullPath entry)))) fk
               = Some d"
    and nd: "\<not> IsDirectory d"
  shows "CreateEntry ops now entry f =
           (Return (Some (Error ((''/'' @ filepath_Join (take k (strings_Split (FullPath entry))))
                                   @ '' is a file''))), fk) \<and>
         (\<exists>ds. calls fk = calls f @ map InsertEntry ds \<and> entry \<notin> set ds \<and>
               list_all IsDirectory ds)"
proof -
  let ?parts = "strings_Split (FullPath entry)"
  let ?p = "''/'' @ filepath_Join (take k ?parts)"
  let ?dir = "\<lambda>i. newDirEntry (''/'' @ filepath_Join (take i ?parts)) (now i) entry"
  have "ancestorLoop ops now entry ?parts [1..<length ?parts] None f =
        ancestorLoop ops now entry ?parts (k # [Suc k..<length ?parts]) l fk"
    by (simp only: upt_split [OF k] ancestorLoop_append pre prod.case option.case)
  also have "\<dots> = ((Some (Error (?p @ '' is a file'')), l), fk)"
    using resolveAncestor_conflict [OF look nd, of "now k" entry] by simp
  finally have ce: "CreateEntry ops now entry f =
      (Return (Some (Error (?p @ '' is a file''))), fk)"
    by (simp add: CreateEntry_def)
  from ancestorLoop_calls [OF pre] obtain js where
    js: "set js \<subseteq> {1..<k}" "calls fk = calls f @ map (\<lambda>i. InsertEntry (?dir i)) js"
    by auto
  have c: "calls fk = calls f @ map InsertEntry (map ?dir js)"
    using js(2) by (simp add: comp_def)
  have "entry \<notin> set (map ?dir js)"
  proof
    assume "entry \<in> set (map ?dir js)"
    then obtain i where i: "i \<in> set js" "entry = ?dir i" by auto
    from i(1) js(1) k have "1 \<le> i" "Suc i < length ?parts" by auto
    then have "''/'' @ filepath_Join (take i ?parts) \<noteq> FullPath entry"
      by (rule ancestor_path_neq)
    moreover from i(2) have "FullPath entry = FullPath (?dir i)" by simp
    ultimately show False using newDirEntry_attrs by metis
  qed
  moreover have "list_all IsDirectory (map ?dir js)"
    using newDirEntry_attrs by (simp add: list_all_iff)
  ultimately have "\<exists>ds. calls fk = calls f @ map InsertEntry ds \<and> entry \<notin> set ds \<and>
               list_all IsDirectory ds"
    using c by blast
  with ce show ?thesis by simp
qed

text \<open>The store holds the root directory and the file \<open>/a\<close>; creating \<open>/a/b\<close> fails with
  "/a is a file" after the root has been cached, and nothing is inserted.\<close>

theorem CreateEntry_ancestor_is_file_witness:
  "(1 :: nat) \<le> 2 \<and>
   2 < length (strings_Split (FullPath (fileEntry ''/a/b'' [''1'']))) \<and>
   ancestorLoop memStore sampleClock (fileEntry ''/a/b'' [''1''])
      (strings_Split (FullPath (fileEntry ''/a/b'' [''1'']))) [1..<2] None conflictFiler =
     ((None, None), cacheSetDirectory ''/'' (dirEntry0 ''/'') 1 conflictFiler) \<and>
   lookupDirectory memStore
      (''/'' @ filepath_Join (take 2 (strings_Split (FullPath (fileEntry ''/a/b'' [''1''])))))
      (cacheSetDirectory ''/'' (dirEntry0 ''/'') 1 conflictFiler) = Some fileA \<and>
   \<not> IsDirectory fileA \<and>
   CreateEntry memStore sampleClock (fileEntry ''/a/b'' [''1'']) conflictFiler =
     (Return (Some (Error ''/a is a file'')), cacheSetDirectory ''/'' (dirEntry0 ''/'') 1 conflictFiler) \<and>
   store (cacheSetDirectory ''/'' (dirEntry0 ''/'') 1 conflictFiler) = [dirEntry0 ''/'', fileA] \<and>
   calls (cacheSetDirectory ''/'' (dirEntry0 ''/'') 1 conflictFiler) = []"
proof -
  let ?E = "fileEntry ''/a/b'' [''1'']"
  let ?fk = "cacheSetDirectory ''/'' (dirEntry0 ''/'') 1 conflictFiler"
  have h1: "(1 :: nat) \<le> 2" by simp
  have h2: "2 < length (strings_Split (FullPath ?E))"
    by (simp add: fileEntry_def)
  have h3: "ancestorLoop memStore sampleClock ?E (strings_Split (FullPath ?E)) [1..<2] None
              conflictFiler = ((None, None), ?fk)"
    by (simp add: Let_def upt_rec fileEntry_def filepath_Join_def resolveAncestor_def
          lookupDirectory_def cacheGetDirectory_def FindEntry_def conflictFiler_def fileA_def
          dirEntry0_def IsDirectory_def ModeDir_def perm0770_def mem_defs)
  have h4: "lookupDirectory memStore (''/'' @ filepath_Join (take 2 (strings_Split (FullPath ?E))))
              ?fk = Some fileA"
    by (simp add: fileEntry_def filepath_Join_def filepath_Clean_def lookupDirectory_def
          cacheGetDirectory_def cacheSetDirectory_def FindEntry_def conflictFiler_def fileA_def
          dirEntry0_def mem_defs)
  have h5: "\<not> IsDirectory fileA"
    by (simp add: IsDirectory_def fileA_def fileEntry_def ModeDir_def)
  have p: "''/'' @ filepath_Join (take 2 (strings_Split (FullPath ?E))) = ''/a''"
    by (simp add: fileEntry_def filepath_Join_def filepath_Clean_def)
  have s: "store ?fk = [dirEntry0 ''/'', fileA]" "calls ?fk = []"
    by (simp_all add: conflictFiler_def memFiler_def)
  from CreateEntry_ancestor_is_file [OF h1 h2 h3 h4 h5] p
  have "CreateEntry memStore sampleClock ?E conflictFiler =
          (Return (Some (Error ''/a is a file'')), ?fk)"
    by simp
  with h1 h2 h3 h4 h5 s show ?thesis by blast
qed

text \<open>
  Claim C5, as stated, fails when the directory cache still holds an ancestor as a
  directory while the store holds a file at that path. In \<open>staleCacheFiler\<close> the store
  has the non-directory \<open>fileA\<close> at \<open>/a\<close>, yet \<open>CreateEntry\<close> of \<open>/a/b\<close> returns no
  error and inserts \<open>/a/b\<close>.
\<close>

theorem CreateEntry_stale_cache_counterexample:
  "fst (FindEntry memStore ''/a'' staleCacheFiler) = Some fileA \<and>
   \<not> IsDirectory fileA \<and>
   fst (CreateEntry memStore sampleClock (fileEntry ''/a/b'' [''1'']) staleCacheFiler) = Return None \<and>
   fst (FindEntry memStore ''/a/b''
          (snd (CreateEntry memStore sampleClock (fileEntry ''/a/b'' [''1'']) staleCacheFiler))) =
     Some (fileEntry ''/a/b'' [''1''])"
  by code_simp

lemma cacheGet_cacheSet_other:
  "p \<noteq> q \<Longrightarrow> cacheGetDirectory p (cacheSetDirectory q d lv f) = cacheGetDirectory p f"
  by (simp add: cacheGetDirectory_def cacheSetDirectory_def split: option.split)

lemma cacheGet_store_calls [simp]:
  "cacheGetDirectory p (f\<lparr>store := s, calls := c\<rparr>) = cacheGetDirectory p f"
  by (simp add: cacheGetDirectory_def)

lemma resolveAncestor_missing:
  "cacheGetDirectory p f = None \<Longrightarrow> fst (store_FindEntry ops p (store f)) = None \<Longrightarrow>
   store_InsertEntry ops (newDirEntry p t entry) (store f) = (None, s) \<Longrightarrow>
   resolveAncestor ops t entry p f =
     (Inr (newDirEntry p t entry),
      f\<lparr>store := s, calls := calls f @ [InsertEntry (newDirEntry p t entry)]\<rparr>)"
  by (simp add: resolveAncestor_def lookupDirectory_def FindEntry_def storeInsertEntry_def Let_def)

lemma ancestorLoop_step:
  assumes "''/'' @ filepath_Join (take i parts) = p"
    and "resolveAncestor ops (now i) entry p f = (Inr d, f1)"
  shows "ancestorLoop ops now entry parts (i # rest) l f =
           ancestorLoop ops now entry parts rest (if i = length parts - 1 then Some d else l)
             (cacheSetDirectory p d (of_nat i) f1)"
  using assms by simp

lemma abc_paths:
  "''/'' @ filepath_Join (take 1 [[], ''a'', ''b'', ''c'']) = ''/''"
  "''/'' @ filepath_Join (take 2 [[], ''a'', ''b'', ''c'']) = ''/a''"
  "''/'' @ filepath_Join (take 3 [[], ''a'', ''b'', ''c'']) = ''/a/b''"
  by (simp_all add: filepath_Join_def filepath_Clean_def)

text \<open>With a new entry present, \<open>deleteChunksIfNotNew\<close> returns normally and makes
  chunk requests only.\<close>

lemma deleteChunksIfNotNew_present:
  "\<exists>rest. deleteChunksIfNotNew oldEntry (Some new) f = (Return (), f\<lparr>calls := calls f @ rest\<rparr>) \<and>
          list_all isChunkRequest rest"
proof (cases oldEntry)
  case None
  then have "deleteChunksIfNotNew oldEntry (Some new) f = (Return (), f\<lparr>calls := calls f @ []\<rparr>) \<and>
          list_all isChunkRequest []"
    by (simp add: deleteChunksIfNotNew_def)
  then show ?thesis by blast
next
  case (Some old)
  let ?rest = "concat (map (\<lambda>c. [LookupFileId (FileId c),
                             DeleteFromVolumeServer (fst (MasterClient f (FileId c))) []])
                      (filter (\<lambda>c. FileId c \<notin> FileId ` set (Chunks new)) (Chunks old)))"
  have "list_all isChunkRequest ?rest"
    by (induction "Chunks old") (simp_all add: list_all_iff)
  moreover from Some have "deleteChunksIfNotNew oldEntry (Some new) f =
      (Return (), f\<lparr>calls := calls f @ ?rest\<rparr>)"
    by (simp add: deleteChunksIfNotNew_def collectToDelete_Some deleteChunks_eq)
  ultimately show ?thesis by blast
qed

lemma CreateEntry_after_loop:
  assumes "ancestorLoop ops now entry (strings_Split (FullPath entry))
             [1..<length (strings_Split (FullPath entry))] None f = ((None, Some parent), g)"
    and "storeInsertEntry ops entry g = (err, g')"
  shows "CreateEntry ops now entry f =
           (case err of
              Some (Error msg) \<Rightarrow>
                (Return (Some (Error (''insert entry '' @ FullPath entry @ '': '' @ msg))), g')
            | None \<Rightarrow>
                (case deleteChunksIfNotNew (fst (FindEntry ops (FullPath entry) g)) (Some entry) g' of
                   (Panic, f3) \<Rightarrow> (Panic, f3)
                 | (Return u, f3) \<Rightarrow> (Return None, f3)))"
  using assms by (simp add: CreateEntry_def Let_def)

text \<open>
  Claim C6. Let the entry to create be at \<open>/a/b/c\<close>, and let none of its ancestors
  \<open>/\<close>, \<open>/a\<close>, \<open>/a/b\<close> be in the cache or, when its turn in the walk comes, in the store,
  the store accepting each insert of a directory. Then \<open>CreateEntry\<close> returns, and the
  requests it makes are: the inserts of directory entries at \<open>/\<close>, \<open>/a\<close> and \<open>/a/b\<close>, in
  this order, then the insert of the entry itself, then at most chunk requests. Each
  directory entry has the directory bit and permission 0770 as its mode, equal
  modification and creation times, and the uid and gid of the entry being created. The
  result is nil exactly when the store accepted the insert of the entry. The three
  directory entries are also written out field by field: the path is the ancestor's
  path, the mode is \<open>2147483648 + 504\<close>, that is bit 31 (\<open>os.ModeDir\<close>) plus octal 0770,
  both times are the reading of the clock in that iteration, and there are no chunks.
\<close>

theorem CreateEntry_creates_missing_ancestors:
  assumes path: "FullPath entry = ''/a/b/c''"
    and c1: "cacheGetDirectory ''/'' f = None"
    and c2: "cacheGetDirectory ''/a'' f = None"
    and c3: "cacheGetDirectory ''/a/b'' f = None"
    and f1: "fst (store_FindEntry ops ''/'' (store f)) = None"
    and i1: "store_InsertEntry ops (newDirEntry ''/'' (now 1) entry) (store f) = (None, s1)"
    and f2: "fst (store_FindEntry ops ''/a'' s1) = None"
    and i2: "store_InsertEntry ops (newDirEntry ''/a'' (now 2) entry) s1 = (None, s2)"
    and f3: "fst (store_FindEntry ops ''/a/b'' s2) = None"
    and i3: "store_InsertEntry ops (newDirEntry ''/a/b'' (now 3) entry) s2 = (None, s3)"
  shows "\<exists>r f'. CreateEntry ops now entry f = (Return r, f') \<and>
           (\<exists>rest. calls f' = calls f @
                      [InsertEntry (newDirEntry ''/'' (now 1) entry),
                       InsertEntry (newDirEntry ''/a'' (now 2) entry),
                       InsertEntry (newDirEntry ''/a/b'' (now 3) entry),
                       InsertEntry entry] @ rest \<and>
                   list_all isChunkRequest rest) \<and>
           store f' = snd (store_InsertEntry ops entry s3) \<and>
           (r = None \<longleftrightarrow> fst (store_InsertEntry ops entry s3) = None) \<and>
           list_all (\<lambda>d. IsDirectory d \<and> Mode (Attr d) = ModeDir OR perm0770 \<and>
                          Mtime (Attr d) = Crtime (Attr d) \<and>
                          Uid (Attr d) = Uid (Attr entry) \<and> Gid (Attr d) = Gid (Attr entry) \<and>
                          Mode (Attr d) AND 2147483648 = 2147483648 \<and>
                          Mode (Attr d) AND 511 = 504)
             [newDirEntry ''/'' (now 1) entry, newDirEntry ''/a'' (now 2) entry,
              newDirEntry ''/a/b'' (now 3) entry] \<and>
           newDirEntry ''/'' (now 1) entry =
             \<lparr>FullPath = ''/'',
              Attr = \<lparr>Mtime = now 1, Crtime = now 1, Mode = 2147483648 + 504,
                      Uid = Uid (Attr entry), Gid = Gid (Attr entry)\<rparr>,
              Chunks = []\<rparr> \<and>
           newDirEntry ''/a'' (now 2) entry =
             \<lparr>FullPath = ''/a'',
              Attr = \<lparr>Mtime = now 2, Crtime = now 2, Mode = 2147483648 + 504,
                      Uid = Uid (Attr entry), Gid = Gid (Attr entry)\<rparr>,
              Chunks = []\<rparr> \<and>
           newDirEntry ''/a/b'' (now 3) entry =
             \<lparr>FullPath = ''/a/b'',
              Attr = \<lparr>Mtime = now 3, Crtime = now 3, Mode = 2147483648 + 504,
                      Uid = Uid (Attr entry), Gid = Gid (Attr entry)\<rparr>,
              Chunks = []\<rparr>"
proof -
  let ?d1 = "newDirEntry ''/'' (now 1) entry"
  let ?d2 = "newDirEntry ''/a'' (now 2) entry"
  let ?d3 = "newDirEntry ''/a/b'' (now 3) entry"
  let ?g1 = "cacheSetDirectory ''/'' ?d1 1 (f\<lparr>store := s1, calls := calls f @ [InsertEntry ?d1]\<rparr>)"
  let ?h2 = "?g1\<lparr>store := s2, calls := calls ?g1 @ [InsertEntry ?d2]\<rparr>"
  let ?g2 = "cacheSetDirectory ''/a'' ?d2 2 ?h2"
  let ?h3 = "?g2\<lparr>store := s3, calls := calls ?g2 @ [InsertEntry ?d3]\<rparr>"
  let ?g3 = "cacheSetDirectory ''/a/b'' ?d3 3 ?h3"
  have r1: "resolveAncestor ops (now 1) entry ''/'' f =
              (Inr ?d1, f\<lparr>store := s1, calls := calls f @ [InsertEntry ?d1]\<rparr>)"
    using c1 f1 i1 by (rule resolveAncestor_missing)
  have "cacheGetDirectory ''/a'' ?g1 = None"
    using c2 by (simp add: cacheGet_cacheSet_other)
  moreover have "fst (store_FindEntry ops ''/a'' (store ?g1)) = None"
    using f2 by simp
  moreover have "store_InsertEntry ops ?d2 (store ?g1) = (None, s2)"
    using i2 by simp
  ultimately have r2: "resolveAncestor ops (now 2) entry ''/a'' ?g1 = (Inr ?d2, ?h2)"
    by (rule resolveAncestor_missing)
  have "cacheGetDirectory ''/a/b'' ?g2 = None"
    using c3 by (simp add: cacheGet_cacheSet_other)
  moreover have "fst (store_FindEntry ops ''/a/b'' (store ?g2)) = None"
    using f3 by simp
  moreover have "store_InsertEntry ops ?d3 (store ?g2) = (None, s3)"
    using i3 by simp
  ultimately have r3: "resolveAncestor ops (now 3) entry ''/a/b'' ?g2 = (Inr ?d3, ?h3)"
    by (rule resolveAncestor_missing)
  have l1: "ancestorLoop ops now entry [[], ''a'', ''b'', ''c''] [1, 2, 3] None f =
            ancestorLoop ops now entry [[], ''a'', ''b'', ''c''] [2, 3] None ?g1"
    using ancestorLoop_step [where now = now and rest = "[2, 3]" and l = None,
            OF abc_paths(1) r1]
    by (simp del: ancestorLoop.simps)
  have l2: "ancestorLoop ops now entry [[], ''a'', ''b'', ''c''] [2, 3] None ?g1 =
            ancestorLoop ops now entry [[], ''a'', ''b'', ''c''] [3] None ?g2"
    using ancestorLoop_step [where now = now and rest = "[3]" and l = None,
            OF abc_paths(2) r2]
    by (simp del: ancestorLoop.simps)
  have l3: "ancestorLoop ops now entry [[], ''a'', ''b'', ''c''] [3] None ?g2 =
            ancestorLoop ops now entry [[], ''a'', ''b'', ''c''] [] (Some ?d3) ?g3"
    using ancestorLoop_step [where now = now and rest = "[]" and l = None,
            OF abc_paths(3) r3]
    by (simp del: ancestorLoop.simps)
  have loop: "ancestorLoop ops now entry [[], ''a'', ''b'', ''c''] [1, 2, 3] None f =
                ((None, Some ?d3), ?g3)"
    by (simp only: l1 l2 l3 ancestorLoop.simps(1))
  have parts: "strings_Split (FullPath entry) = [[], ''a'', ''b'', ''c'']"
    by (simp add: path)
  have idx: "[1..<length [[], ''a'', ''b'', ''c'']] = [1, 2, 3]"
    by (simp add: upt_rec)
  have loop': "ancestorLoop ops now entry (strings_Split (FullPath entry))
             [1..<length (strings_Split (FullPath entry))] None f = ((None, Some ?d3), ?g3)"
    by (simp only: parts idx loop)
  have cg3: "calls ?g3 = calls f @ [InsertEntry ?d1, InsertEntry ?d2, InsertEntry ?d3]"
    by simp
  have sg3: "store ?g3 = s3"
    by simp
  obtain err s4 where ins: "store_InsertEntry ops entry s3 = (err, s4)"
    by (cases "store_InsertEntry ops entry s3")
  let ?f4 = "?g3\<lparr>store := s4, calls := calls ?g3 @ [InsertEntry entry]\<rparr>"
  have si: "storeInsertEntry ops entry ?g3 = (err, ?f4)"
    using ins sg3 by (simp add: storeInsertEntry_def)
  have attrs: "list_all (\<lambda>d. IsDirectory d \<and> Mode (Attr d) = ModeDir OR perm0770 \<and>
                          Mtime (Attr d) = Crtime (Attr d) \<and>
                          Uid (Attr d) = Uid (Attr entry) \<and> Gid (Attr d) = Gid (Attr entry) \<and>
                          Mode (Attr d) AND 2147483648 = 2147483648 \<and>
                          Mode (Attr d) AND 511 = 504)
             [?d1, ?d2, ?d3] \<and>
           ?d1 =
             \<lparr>FullPath = ''/'',
              Attr = \<lparr>Mtime = now 1, Crtime = now 1, Mode = 2147483648 + 504,
                      Uid = Uid (Attr entry), Gid = Gid (Attr entry)\<rparr>,
              Chunks = []\<rparr> \<and>
           ?d2 =
             \<lparr>FullPath = ''/a'',
              Attr = \<lparr>Mtime = now 2, Crtime = now 2, Mode = 2147483648 + 504,
                      Uid = Uid (Attr entry), Gid = Gid (Attr entry)\<rparr>,
              Chunks = []\<rparr> \<and>
           ?d3 =
             \<lparr>FullPath = ''/a/b'',
              Attr = \<lparr>Mtime = now 3, Crtime = now 3, Mode = 2147483648 + 504,
                      Uid = Uid (Attr entry), Gid = Gid (Attr entry)\<rparr>,
              Chunks = []\<rparr>"
    by (simp add: newDirEntry_def IsDirectory_def ModeDir_def perm0770_def)
  have pack: "\<And>r f' xs rest S b A.
      CreateEntry ops now entry f = (Return r, f') \<Longrightarrow> calls f' = calls f @ xs @ rest \<Longrightarrow>
      list_all isChunkRequest rest \<Longrightarrow> store f' = S \<Longrightarrow> (r = None \<longleftrightarrow> b) \<Longrightarrow> A \<Longrightarrow>
      \<exists>r f'. CreateEntry ops now entry f = (Return r, f') \<and>
        (\<exists>rest. calls f' = calls f @ xs @ rest \<and> list_all isChunkRequest rest) \<and>
        store f' = S \<and> (r = None \<longleftrightarrow> b) \<and> A"
    by blast
  show ?thesis
  proof (cases err)
    case (Some e)
    obtain msg where e: "e = Error msg" by (cases e)
    have ce: "CreateEntry ops now entry f =
            (Return (Some (Error (''insert entry '' @ FullPath entry @ '': '' @ msg))), ?f4)"
      using CreateEntry_after_loop [OF loop' si] Some e by simp
    have cl: "calls ?f4 = calls f @ [InsertEntry ?d1, InsertEntry ?d2, InsertEntry ?d3,
                      InsertEntry entry] @ []"
      using cg3 by simp
    have la: "list_all isChunkRequest []"
      by simp
    have st: "store ?f4 = snd (store_InsertEntry ops entry s3)"
      using ins by simp
    have rn: "(Some (Error (''insert entry '' @ FullPath entry @ '': '' @ msg)) = None) \<longleftrightarrow>
                   fst (store_InsertEntry ops entry s3) = None"
      using ins Some by simp
    from pack [OF ce cl la st rn attrs] show ?thesis .
  next
    case None
    obtain rest where rest:
      "deleteChunksIfNotNew (fst (FindEntry ops (FullPath entry) ?g3)) (Some entry) ?f4 =
         (Return (), ?f4\<lparr>calls := calls ?f4 @ rest\<rparr>)"
      "list_all isChunkRequest rest"
      using deleteChunksIfNotNew_present by blast
    have ce: "CreateEntry ops now entry f = (Return None, ?f4\<lparr>calls := calls ?f4 @ rest\<rparr>)"
      using CreateEntry_after_loop [OF loop' si] None rest(1) by simp
    have cl: "calls (?f4\<lparr>calls := calls ?f4 @ rest\<rparr>) =
                     calls f @ [InsertEntry ?d1, InsertEntry ?d2, InsertEntry ?d3,
                      InsertEntry entry] @ rest"
      using cg3 by simp
    have st: "store (?f4\<lparr>calls := calls ?f4 @ rest\<rparr>) = snd (store_InsertEntry ops entry s3)"
      using ins by simp
    have rn: "(None = (None :: error option)) \<longleftrightarrow> fst (store_InsertEntry ops entry s3) = None"
      using ins None by simp
    from pack [OF ce cl rest(2) st rn attrs] show ?thesis .
  qed
qed

lemma sampleNew_path: "FullPath sampleNew = ''/a/b/c''"
  by (simp add: sampleNew_def fileEntry_def)

lemma memFiler_cache_empty: "cacheGetDirectory p (memFiler s) = None"
  by (simp add: cacheGetDirectory_def memFiler_def)

lemma mem_find_absent:
  "fst (store_FindEntry memStore ''/'' (store (memFiler []))) = None"
  "fst (store_FindEntry memStore ''/a'' [newDirEntry ''/'' (sampleClock 1) sampleNew]) = None"
  "fst (store_FindEntry memStore ''/a/b''
          [newDirEntry ''/'' (sampleClock 1) sampleNew,
           newDirEntry ''/a'' (sampleClock 2) sampleNew]) = None"
  by (simp_all add: mem_defs newDirEntry_def)

lemma mem_insert_dirs:
  "store_InsertEntry memStore (newDirEntry ''/'' (sampleClock 1) sampleNew) (store (memFiler [])) =
     (None, [newDirEntry ''/'' (sampleClock 1) sampleNew])"
  "store_InsertEntry memStore (newDirEntry ''/a'' (sampleClock 2) sampleNew)
     [newDirEntry ''/'' (sampleClock 1) sampleNew] =
     (None, [newDirEntry ''/'' (sampleClock 1) sampleNew,
             newDirEntry ''/a'' (sampleClock 2) sampleNew])"
  "store_InsertEntry memStore (newDirEntry ''/a/b'' (sampleClock 3) sampleNew)
     [newDirEntry ''/'' (sampleClock 1) sampleNew, newDirEntry ''/a'' (sampleClock 2) sampleNew] =
     (None, [newDirEntry ''/'' (sampleClock 1) sampleNew,
             newDirEntry ''/a'' (sampleClock 2) sampleNew,
             newDirEntry ''/a/b'' (sampleClock 3) sampleNew])"
  by (simp_all add: mem_defs newDirEntry_def)

lemma mem_insert_target:
  "store_InsertEntry memStore sampleNew
     [newDirEntry ''/'' (sampleClock 1) sampleNew, newDirEntry ''/a'' (sampleClock 2) sampleNew,
      newDirEntry ''/a/b'' (sampleClock 3) sampleNew] =
     (None, [newDirEntry ''/'' (sampleClock 1) sampleNew,
             newDirEntry ''/a'' (sampleClock 2) sampleNew,
             newDirEntry ''/a/b'' (sampleClock 3) sampleNew, sampleNew])"
  by (simp add: mem_defs newDirEntry_def sampleNew_def fileEntry_def)

text \<open>On the empty in-memory store with an empty cache, creating \<open>/a/b/c\<close> returns nil
  and leaves the four entries in the store.\<close>

theorem CreateEntry_creates_missing_ancestors_witness:
  "FullPath sampleNew = ''/a/b/c'' \<and>
   cacheGetDirectory ''/'' (memFiler []) = None \<and>
   cacheGetDirectory ''/a'' (memFiler []) = None \<and>
   cacheGetDirectory ''/a/b'' (memFiler []) = None \<and>
   fst (store_FindEntry memStore ''/'' (store (memFiler []))) = None \<and>
   store_InsertEntry memStore (newDirEntry ''/'' (sampleClock 1) sampleNew) (store (memFiler [])) =
     (None, [newDirEntry ''/'' (sampleClock 1) sampleNew]) \<and>
   fst (store_FindEntry memStore ''/a'' [newDirEntry ''/'' (sampleClock 1) sampleNew]) = None \<and>
   store_InsertEntry memStore (newDirEntry ''/a'' (sampleClock 2) sampleNew)
     [newDirEntry ''/'' (sampleClock 1) sampleNew] =
     (None, [newDirEntry ''/'' (sampleClock 1) sampleNew,
             newDirEntry ''/a'' (sampleClock 2) sampleNew]) \<and>
   fst (store_FindEntry memStore ''/a/b''
          [newDirEntry ''/'' (sampleClock 1) sampleNew,
           newDirEntry ''/a'' (sampleClock 2) sampleNew]) = None \<and>
   store_InsertEntry memStore (newDirEntry ''/a/b'' (sampleClock 3) sampleNew)
     [newDirEntry ''/'' (sampleClock 1) sampleNew, newDirEntry ''/a'' (sampleClock 2) sampleNew] =
     (None, [newDirEntry ''/'' (sampleClock 1) sampleNew,
             newDirEntry ''/a'' (sampleClock 2) sampleNew,
             newDirEntry ''/a/b'' (sampleClock 3) sampleNew]) \<and>
   (\<exists>f' rest. CreateEntry memStore sampleClock sampleNew (memFiler []) = (Return None, f') \<and>
         calls f' =
           [InsertEntry (newDirEntry ''/'' (sampleClock 1) sampleNew),
            InsertEntry (newDirEntry ''/a'' (sampleClock 2) sampleNew),
            InsertEntry (newDirEntry ''/a/b'' (sampleClock 3) sampleNew),
            InsertEntry sampleNew] @ rest \<and>
         list_all isChunkRequest rest \<and>
         store f' =
           [newDirEntry ''/'' (sampleClock 1) sampleNew, newDirEntry ''/a'' (sampleClock 2) sampleNew,
            newDirEntry ''/a/b'' (sampleClock 3) sampleNew, sampleNew] \<and>
         map FullPath (store f') = [''/'', ''/a'', ''/a/b'', ''/a/b/c''] \<and>
         map (\<lambda>d. Mode (Attr d)) (store f') = [2147484152, 2147484152, 2147484152, 420] \<and>
         map (\<lambda>d. (Mtime (Attr d), Crtime (Attr d), Uid (Attr d), Gid (Attr d))) (store f') =
           [(101, 101, 7, 8), (102, 102, 7, 8), (103, 103, 7, 8), (0, 0, 7, 8)])"
proof -
  let ?s3 = "[newDirEntry ''/'' (sampleClock 1) sampleNew, newDirEntry ''/a'' (sampleClock 2) sampleNew,
              newDirEntry ''/a/b'' (sampleClock 3) sampleNew]"
  from CreateEntry_creates_missing_ancestors [OF sampleNew_path
         memFiler_cache_empty memFiler_cache_empty memFiler_cache_empty
         mem_find_absent(1) mem_insert_dirs(1) mem_find_absent(2) mem_insert_dirs(2)
         mem_find_absent(3) mem_insert_dirs(3)]
  obtain r f' rest where t:
    "CreateEntry memStore sampleClock sampleNew (memFiler []) = (Return r, f')"
    "calls f' = calls (memFiler []) @
       [InsertEntry (newDirEntry ''/'' (sampleClock 1) sampleNew),
        InsertEntry (newDirEntry ''/a'' (sampleClock 2) sampleNew),
        InsertEntry (newDirEntry ''/a/b'' (sampleClock 3) sampleNew),
        InsertEntry sampleNew] @ rest"
    "list_all isChunkRequest rest"
    "store f' = snd (store_InsertEntry memStore sampleNew ?s3)"
    "r = None \<longleftrightarrow> fst (store_InsertEntry memStore sampleNew ?s3) = None"
    by (elim exE conjE) (rule that, assumption+)
  have 1: "CreateEntry memStore sampleClock sampleNew (memFiler []) = (Return None, f')"
    using t(1,5) by (simp only: mem_insert_target fst_conv simp_thms)
  have 2: "calls f' =
       [InsertEntry (newDirEntry ''/'' (sampleClock 1) sampleNew),
        InsertEntry (newDirEntry ''/a'' (sampleClock 2) sampleNew),
        InsertEntry (newDirEntry ''/a/b'' (sampleClock 3) sampleNew),
        InsertEntry sampleNew] @ rest"
    using t(2) by (simp add: memFiler_def)
  have 3: "store f' = ?s3 @ [sampleNew]"
    using t(4) by (simp only: mem_insert_target snd_conv append_Cons append_Nil)
  have 4: "map FullPath (store f') = [''/'', ''/a'', ''/a/b'', ''/a/b/c'']"
    by (simp add: 3 newDirEntry_def sampleNew_def fileEntry_def)
  have 5: "map (\<lambda>d. Mode (Attr d)) (store f') = [2147484152, 2147484152, 2147484152, 420]"
    by (simp add: 3 newDirEntry_def sampleNew_def fileEntry_def ModeDir_def perm0770_def)
  have 6: "map (\<lambda>d. (Mtime (Attr d), Crtime (Attr d), Uid (Attr d), Gid (Attr d))) (store f') =
           [(101, 101, 7, 8), (102, 102, 7, 8), (103, 103, 7, 8), (0, 0, 7, 8)]"
    by (simp add: 3 newDirEntry_def sampleNew_def fileEntry_def sampleClock_def)
  have "\<exists>f' rest. CreateEntry memStore sampleClock sampleNew (memFiler []) = (Return None, f') \<and>
         calls f' =
           [InsertEntry (newDirEntry ''/'' (sampleClock 1) sampleNew),
            InsertEntry (newDirEntry ''/a'' (sampleClock 2) sampleNew),
            InsertEntry (newDirEntry ''/a/b'' (sampleClock 3) sampleNew),
            InsertEntry sampleNew] @ rest \<and>
         list_all isChunkRequest rest \<and>
         store f' = ?s3 @ [sampleNew] \<and>
         map FullPath (store f') = [''/'', ''/a'', ''/a/b'', ''/a/b/c''] \<and>
         map (\<lambda>d. Mode (Attr d)) (store f') = [2147484152, 2147484152, 2147484152, 420] \<and>
         map (\<lambda>d. (Mtime (Attr d), Crtime (Attr d), Uid (Attr d), Gid (Attr d))) (store f') =
           [(101, 101, 7, 8), (102, 102, 7, 8), (103, 103, 7, 8), (0, 0, 7, 8)]"
    by (rule exI [where x = f'], rule exI [where x = rest], intro conjI)
       (rule 1 2 t(3) 3 4 5 6)+
  then show ?thesis
    using sampleNew_path memFiler_cache_empty mem_find_absent mem_insert_dirs by simp
qed

end
